theory Spec2Isabelle
  imports Complex_Main
begin

chapter \<open>EquityReview: the rule engine, the job orchestrator and the result writer\<close>

text \<open>
  A shallow embedding of \<^verbatim>\<open>MockLLMProvider.analyze\<close> (the escalation rules),
  \<^verbatim>\<open>processJob\<close> (routes.ts) with the job store it writes to, and
  \<^verbatim>\<open>generateResultsExcel\<close> (excel/writer.ts), followed by the properties C1 to C10.
\<close>

section \<open>Strings\<close>

text \<open>
  A JavaScript string is a sequence of UTF-16 code units. Here a \<^typ>\<open>string\<close> stands for
  one whose code units all lie in U+0000..U+00FF, one \<^typ>\<open>char\<close> per code unit, so
  \<^const>\<open>length\<close> is the \<^verbatim>\<open>.length\<close> of the source. In that range
  \<^verbatim>\<open>toLowerCase\<close> works unit by unit and \<^verbatim>\<open>trim\<close> strips the units
  U+0009..U+000D, U+0020 and U+00A0.
\<close>

definition toLowerChar :: "char \<Rightarrow> char" where
  "toLowerChar c =
     (let n = (of_char c :: nat) in
      if (65 \<le> n \<and> n \<le> 90) \<or> (192 \<le> n \<and> n \<le> 222 \<and> n \<noteq> 215)
      then char_of (n + 32) else c)"

definition toLowerCase :: "string \<Rightarrow> string" where
  "toLowerCase s = map toLowerChar s"

definition isWhiteSpace :: "char \<Rightarrow> bool" where
  "isWhiteSpace c = ((of_char c :: nat) \<in> {9, 10, 11, 12, 13, 32, 160})"

definition trim :: "string \<Rightarrow> string" where
  "trim s = rev (dropWhile isWhiteSpace (rev (dropWhile isWhiteSpace s)))"

fun startsWith :: "string \<Rightarrow> string \<Rightarrow> bool" where
  "startsWith s [] = True"
| "startsWith [] (t # ts) = False"
| "startsWith (c # cs) (t # ts) = (c = t \<and> startsWith cs ts)"

text \<open>\<^verbatim>\<open>s.includes(t)\<close>: \<open>t\<close> occurs in \<open>s\<close> as a contiguous run of code units.\<close>

fun strIncludes :: "string \<Rightarrow> string \<Rightarrow> bool" where
  "strIncludes [] t = (t = [])"
| "strIncludes (c # cs) t = (startsWith (c # cs) t \<or> strIncludes cs t)"

definition isDigit :: "char \<Rightarrow> bool" where
  "isDigit c = (c \<in> set ''0123456789'')"

text \<open>
  The regular expression \<^verbatim>\<open>/\d{1,2}\/\d{1,2}|\d{4}/\<close>: \<open>slashDigit\<close> is the tail
  \<^verbatim>\<open>\/\d{1,2}\<close> (its second digit is optional, so one digit decides the match),
  \<open>dateAt\<close> the first alternative and \<open>yearAt\<close> the second, both anchored at the head of
  the string; \<open>dateLikeTest\<close> is \<^verbatim>\<open>.test\<close>, which tries every start position.
\<close>

fun slashDigit :: "string \<Rightarrow> bool" where
  "slashDigit (s # d # r) = (s = CHR ''/'' \<and> isDigit d)"
| "slashDigit r = False"

fun dateAt :: "string \<Rightarrow> bool" where
  "dateAt [] = False"
| "dateAt (a # r) =
     (isDigit a \<and> (slashDigit r \<or> (case r of [] \<Rightarrow> False | b # r' \<Rightarrow> isDigit b \<and> slashDigit r')))"

fun yearAt :: "string \<Rightarrow> bool" where
  "yearAt (a # b # c # d # r) = (isDigit a \<and> isDigit b \<and> isDigit c \<and> isDigit d)"
| "yearAt r = False"

fun dateLikeTest :: "string \<Rightarrow> bool" where
  "dateLikeTest [] = False"
| "dateLikeTest (c # cs) = (dateAt (c # cs) \<or> yearAt (c # cs) \<or> dateLikeTest cs)"

section \<open>Data model (shared/schema.ts)\<close>

record EmployeeData =
  employeeId :: string
  goalEmployeeRating :: "string option"
  goalManagerRating :: "string option"
  valuesEmployeeRating :: "string option"
  valuesManagerRating :: "string option"
  overallRatingEmployee :: "string option"
  overallRatingManager :: "string option"
  managerComments :: "string option"

datatype ValuesAlignment = Aligned | PartiallyAligned | Misaligned

datatype RatingConsistency = Consistent | Inconsistent

datatype AIRecommendation = GREEN | RED

text \<open>The result's \<^verbatim>\<open>employeeId\<close> field is named \<open>resultEmployeeId\<close> here, the name
  \<open>employeeId\<close> being taken by the field of \<open>EmployeeData\<close>.\<close>

record AnalysisResult =
  resultEmployeeId :: string
  biasAssessment :: string
  valuesAlignment :: ValuesAlignment
  ratingConsistency :: RatingConsistency
  ratingConsistencyRationale :: string
  aiRecommendation :: AIRecommendation
  flagsTriggered :: "string list"

section \<open>The rule engine (MockLLMProvider.analyze)\<close>

definition ratingMap :: "(string \<times> int) list" where
  "ratingMap =
    [(''does not meet expectations'', 1),
     (''does not meet'', 1),
     (''below expectations'', 1),
     (''below'', 1),
     (''needs improvement'', 1),
     (''meets expectations'', 2),
     (''meets'', 2),
     (''meeting expectations'', 2),
     (''meeting'', 2),
     (''satisfactory'', 2),
     (''exceeds expectations'', 3),
     (''exceeds'', 3),
     (''exceeding expectations'', 3),
     (''exceeding'', 3),
     (''outstanding'', 3),
     (''exceptional'', 3)]"

text \<open>
  \<^verbatim>\<open>ratingMap[normalized]\<close> reads a property of an object literal, so besides the
  sixteen own keys it finds what the literal inherits from \<^verbatim>\<open>Object.prototype\<close>. The
  key has been lower-cased, and the inherited names without capitals are
  \<^verbatim>\<open>constructor\<close> and \<^verbatim>\<open>__proto__\<close>: their values are not numbers, and any
  arithmetic on them gives \<^verbatim>\<open>NaN\<close>. \<open>None\<close> is \<^verbatim>\<open>undefined\<close>.
\<close>

datatype ratingValue = Number int | Inherited

definition ratingLookup :: "string \<Rightarrow> ratingValue option" where
  "ratingLookup k =
     (case map_of ratingMap k of
        Some n \<Rightarrow> Some (Number n)
      | None \<Rightarrow> if k \<in> set [''constructor'', ''__proto__''] then Some Inherited else None)"

text \<open>\<open>normalizeRating\<close> closes over the \<^verbatim>\<open>flags\<close> array; the model passes it in and
  returns it. The result \<open>None\<close> is \<^verbatim>\<open>null\<close>.\<close>

definition normalizeRating :: "string option \<Rightarrow> string list \<Rightarrow> ratingValue option \<times> string list" where
  "normalizeRating rating flags =
     (case rating of
        None \<Rightarrow> (None, flags)
      | Some r \<Rightarrow>
          if r = [] then (None, flags)
          else (let normalized = trim (toLowerCase r) in
                case ratingLookup normalized of
                  Some v \<Rightarrow> (Some v, flags)
                | None \<Rightarrow> (None, flags @ [''UnknownRatingLabel''])))"

text \<open>\<^verbatim>\<open>Math.abs(a - b)\<close>, with \<open>None\<close> for \<^verbatim>\<open>NaN\<close>; every comparison with
  \<^verbatim>\<open>NaN\<close> is false.\<close>

fun absDiff :: "ratingValue \<Rightarrow> ratingValue \<Rightarrow> int option" where
  "absDiff (Number a) (Number b) = Some \<bar>a - b\<bar>"
| "absDiff a b = None"

fun geq :: "int option \<Rightarrow> int \<Rightarrow> bool" where
  "geq (Some d) k = (d \<ge> k)"
| "geq None k = False"

fun strictEq :: "int option \<Rightarrow> int \<Rightarrow> bool" where
  "strictEq (Some d) k = (d = k)"
| "strictEq None k = False"

text \<open>The guard \<^verbatim>\<open>emp !== null && mgr !== null && Math.abs(emp - mgr) >= 2\<close>.\<close>

fun mismatch :: "ratingValue option \<Rightarrow> ratingValue option \<Rightarrow> bool" where
  "mismatch (Some a) (Some b) = geq (absDiff a b) 2"
| "mismatch a b = False"

definition loadedTerms :: "string list" where
  "loadedTerms =
    [''abrasive'', ''emotional'', ''not a culture fit'', ''too aggressive'',
     ''lacks executive presence'', ''difficult'', ''temperamental'']"

definition policySensitiveTerms :: "string list" where
  "policySensitiveTerms =
    [''medical'', ''disability'', ''pregnant'', ''pregnancy'', ''religion'', ''religious'',
     ''race'', ''racial'', ''age'', ''gender'', ''gender identity'', ''harassment'',
     ''discrimination'', ''retaliation'', ''ada'', ''fmla'', ''eeoc'']"

text \<open>The local constants of \<open>analyze\<close> that depend on the narrative only:
  \<^verbatim>\<open>(employee.managerComments || "").toLowerCase()\<close>, the guard
  \<^verbatim>\<open>!employee.managerComments || employee.managerComments.trim().length < 20\<close>
  (an absent and an empty narrative are both falsy), and the three term scans.\<close>

definition lowerComments :: "string option \<Rightarrow> string" where
  "lowerComments mc = toLowerCase (case mc of None \<Rightarrow> [] | Some c \<Rightarrow> c)"

definition narrativeInsufficient :: "string option \<Rightarrow> bool" where
  "narrativeInsufficient mc =
     (case mc of None \<Rightarrow> True | Some c \<Rightarrow> c = [] \<or> length (trim c) < 20)"

definition hasLoadedLanguage :: "string \<Rightarrow> bool" where
  "hasLoadedLanguage comments = list_ex (\<lambda>term. strIncludes comments term) loadedTerms"

definition hasConcreteEvidence :: "string \<Rightarrow> bool" where
  "hasConcreteEvidence comments =
     (strIncludes comments ''example'' \<or> strIncludes comments ''instance'' \<or>
      strIncludes comments ''specifically'' \<or> strIncludes comments ''on [date]'' \<or>
      dateLikeTest comments)"

definition hasPolicySensitive :: "string \<Rightarrow> bool" where
  "hasPolicySensitive comments =
     list_ex (\<lambda>term. strIncludes comments term) policySensitiveTerms"

text \<open>\<^verbatim>\<open>ratings.some((r1, i) => ratings.slice(i + 1).some(r2 => Math.abs(r1 - r2) >= 2))\<close>\<close>

fun hasLargeDiff :: "ratingValue list \<Rightarrow> bool" where
  "hasLargeDiff [] = False"
| "hasLargeDiff (r1 # rest) = (list_ex (\<lambda>r2. geq (absDiff r1 r2) 2) rest \<or> hasLargeDiff rest)"

text \<open>\<^verbatim>\<open>Array.from(new Set(flags))\<close>: a \<^verbatim>\<open>Set\<close> keeps each value once, at the place of
  its first insertion.\<close>

definition setAdd :: "string list \<Rightarrow> string \<Rightarrow> string list" where
  "setAdd seen x = (if x \<in> set seen then seen else seen @ [x])"

definition arrayFromSet :: "string list \<Rightarrow> string list" where
  "arrayFromSet flags = foldl setAdd [] flags"

text \<open>
  \<open>analyze\<close> follows the method statement by statement; each rebinding of \<open>flags\<close> and
  \<open>recommendation\<close> is one assignment of the source. The initial
  \<^verbatim>\<open>setTimeout\<close> delay changes no value and is left out, and
  \<^verbatim>\<open>analysisResultSchema.parse\<close> returns the object it is given, every field
  having the type the schema asks for.
\<close>

definition analyze :: "EmployeeData \<Rightarrow> AnalysisResult" where
  "analyze employee =
    (let flags = [];
         recommendation = GREEN;
         (overallEmp, flags) = normalizeRating (overallRatingEmployee employee) flags;
         (overallMgr, flags) = normalizeRating (overallRatingManager employee) flags;
         (goalEmp, flags) = normalizeRating (goalEmployeeRating employee) flags;
         (goalMgr, flags) = normalizeRating (goalManagerRating employee) flags;
         (valuesEmp, flags) = normalizeRating (valuesEmployeeRating employee) flags;
         (valuesMgr, flags) = normalizeRating (valuesManagerRating employee) flags;
         (flags, recommendation) =
           (if mismatch overallEmp overallMgr
            then (flags @ [''RatingMismatch_Overall_2+Levels''], RED)
            else (flags, recommendation));
         (flags, recommendation) =
           (if mismatch goalEmp goalMgr
            then (flags @ [''RatingMismatch_Goals_2+Levels''], RED)
            else (flags, recommendation));
         (flags, recommendation) =
           (if mismatch valuesEmp valuesMgr
            then (flags @ [''RatingMismatch_Values_2+Levels''], RED)
            else (flags, recommendation));
         comments = lowerComments (managerComments employee);
         (flags, recommendation) =
           (if narrativeInsufficient (managerComments employee)
            then (flags @ [''NarrativeInsufficient''], RED)
            else (flags, recommendation));
         (flags, recommendation) =
           (if hasLoadedLanguage comments \<and> \<not> hasConcreteEvidence comments
            then (flags @ [''LoadedLanguage_NoEvidence''], RED)
            else (flags, recommendation));
         (flags, recommendation) =
           (if hasPolicySensitive comments
            then (flags @ [''PolicySensitive_EscalateHR''], RED)
            else (flags, recommendation));
         ratings = List.map_filter (\<lambda>r. r) [overallEmp, overallMgr, goalEmp, goalMgr, valuesEmp, valuesMgr];
         (consistency, rationale) =
           (if length ratings \<ge> 2 \<and> hasLargeDiff ratings
            then (Inconsistent, ''Significant variance detected between employee and manager ratings.'')
            else (Consistent, ''All ratings appear consistent within expected variance.''));
         alignment =
           (case (valuesEmp, valuesMgr) of
              (Some ve, Some vm) \<Rightarrow>
                (let diff = absDiff ve vm in
                 if geq diff 2 then Misaligned
                 else if strictEq diff 1 then PartiallyAligned
                 else Aligned)
            | _ \<Rightarrow> Aligned);
         bias = ''No significant bias indicators detected in the review narrative.'';
         bias = (if hasLoadedLanguage comments
                 then ''Potential bias indicators present: subjective language used without supporting evidence.''
                 else bias);
         bias = (if hasPolicySensitive comments
                 then ''Policy-sensitive content detected - requires HR review for compliance.''
                 else bias)
     in \<lparr> resultEmployeeId = employeeId employee,
          biasAssessment = bias,
          valuesAlignment = alignment,
          ratingConsistency = consistency,
          ratingConsistencyRationale = rationale,
          aiRecommendation = recommendation,
          flagsTriggered = arrayFromSet flags \<rparr>)"

section \<open>The result writer (excel/writer.ts)\<close>

text \<open>A value thrown in the source: an \<^verbatim>\<open>Error\<close> object with its message, or anything
  else (\<^verbatim>\<open>error instanceof Error\<close> is false).\<close>

datatype thrown = ErrorObject string | OtherValue

fun errorMessage :: "thrown \<Rightarrow> string \<Rightarrow> string" where
  "errorMessage (ErrorObject m) fallback = m"
| "errorMessage OtherValue fallback = fallback"

record Column =
  header :: string
  key :: string
  width :: nat

record Cell =
  cellValue :: string
  cellFill :: "string option"

record Worksheet =
  columns :: "Column list"
  rows :: "Cell list list"

text \<open>The writer's \<^verbatim>\<open>WriteResult\<close>; its fields \<^verbatim>\<open>success\<close> and
  \<^verbatim>\<open>error\<close> are \<open>writeSuccess\<close> and \<open>writeError\<close> here.\<close>

record WriteResult =
  writeSuccess :: bool
  filePath :: "string option"
  fileName :: "string option"
  writeError :: "string option"

definition worksheetColumns :: "Column list" where
  "worksheetColumns =
    [\<lparr> header = ''ReviewBatch'', key = ''reviewBatch'', width = 25 \<rparr>,
     \<lparr> header = ''EmployeeId'', key = ''employeeId'', width = 15 \<rparr>,
     \<lparr> header = ''AI_Output'', key = ''aiOutput'', width = 80 \<rparr>,
     \<lparr> header = ''AI_Recommendation'', key = ''aiRecommendation'', width = 20 \<rparr>,
     \<lparr> header = ''ReviewStatus'', key = ''reviewStatus'', width = 15 \<rparr>,
     \<lparr> header = ''ReviewerNotes'', key = ''reviewerNotes'', width = 30 \<rparr>,
     \<lparr> header = ''FlagsTriggered'', key = ''flagsTriggered'', width = 40 \<rparr>]"

fun recommendationText :: "AIRecommendation \<Rightarrow> string" where
  "recommendationText GREEN = ''GREEN''"
| "recommendationText RED = ''RED''"

fun valuesAlignmentText :: "ValuesAlignment \<Rightarrow> string" where
  "valuesAlignmentText Aligned = ''Aligned''"
| "valuesAlignmentText PartiallyAligned = ''Partially aligned''"
| "valuesAlignmentText Misaligned = ''Misaligned''"

fun ratingConsistencyText :: "RatingConsistency \<Rightarrow> string" where
  "ratingConsistencyText Consistent = ''Consistent''"
| "ratingConsistencyText Inconsistent = ''Inconsistent''"

text \<open>\<^verbatim>\<open>xs.join(sep)\<close>\<close>

fun join :: "string list \<Rightarrow> string \<Rightarrow> string" where
  "join [] sep = []"
| "join [x] sep = x"
| "join (x # y # ys) sep = x @ sep @ join (y # ys) sep"

text \<open>\<^verbatim>\<open>worksheet.addRow(obj)\<close> fills one cell per column, with the value the object has
  under the column's key.\<close>

definition addRow :: "Column list \<Rightarrow> (string \<times> string) list \<Rightarrow> Cell list" where
  "addRow cols obj =
     map (\<lambda>col. \<lparr> cellValue = (case map_of obj (key col) of Some v \<Rightarrow> v | None \<Rightarrow> []),
                  cellFill = None \<rparr>) cols"

text \<open>\<^verbatim>\<open>row.getCell(k).fill = { ..., fgColor: { argb } }\<close>\<close>

definition setFill :: "Column list \<Rightarrow> string \<Rightarrow> string \<Rightarrow> Cell list \<Rightarrow> Cell list" where
  "setFill cols k argb row =
     map (\<lambda>(col, cell). if key col = k then cell\<lparr> cellFill := Some argb \<rparr> else cell) (zip cols row)"

definition headerRow :: "Column list \<Rightarrow> Cell list" where
  "headerRow cols = map (\<lambda>col. \<lparr> cellValue = header col, cellFill = Some ''FF4472C4'' \<rparr>) cols"

definition resultRow :: "string \<Rightarrow> AnalysisResult \<Rightarrow> Cell list" where
  "resultRow reviewBatch result =
    (let aiOutput = ''Bias Assessment: '' @ biasAssessment result @
                    '' | Values Alignment: '' @ valuesAlignmentText (valuesAlignment result) @
                    '' | Rating Consistency: '' @ ratingConsistencyText (ratingConsistency result) @
                    '' ('' @ ratingConsistencyRationale result @ '')'';
         row = addRow worksheetColumns
                 [(''reviewBatch'', reviewBatch),
                  (''employeeId'', resultEmployeeId result),
                  (''aiOutput'', aiOutput),
                  (''aiRecommendation'', recommendationText (aiRecommendation result)),
                  (''reviewStatus'', ''Pending''),
                  (''reviewerNotes'', []),
                  (''flagsTriggered'', join (flagsTriggered result) '', '')]
     in if aiRecommendation result = RED
        then setFill worksheetColumns ''aiRecommendation'' ''FFFF6B6B'' row
        else setFill worksheetColumns ''aiRecommendation'' ''FF51CF66'' row)"

definition buildWorksheet :: "string \<Rightarrow> AnalysisResult list \<Rightarrow> Worksheet" where
  "buildWorksheet reviewBatch results =
     \<lparr> columns = worksheetColumns,
       rows = headerRow worksheetColumns # map (resultRow reviewBatch) results \<rparr>"

text \<open>
  The file system is a parameter: \<open>writeFile path sheet\<close> is \<open>None\<close> when the workbook was
  written and the thrown value otherwise (creating the directory included). \<open>tmpDir\<close> is
  \<^verbatim>\<open>path.join(process.cwd(), "tmp")\<close>. Besides the \<open>WriteResult\<close> the model
  returns the effect of the call: the worksheet now on disk under \<open>filePath\<close>, if any.
\<close>

type_synonym fileSystem = "string \<Rightarrow> Worksheet \<Rightarrow> thrown option"

definition generateResultsExcel ::
    "fileSystem \<Rightarrow> string \<Rightarrow> string \<Rightarrow> AnalysisResult list \<Rightarrow> string \<Rightarrow>
     WriteResult \<times> Worksheet option" where
  "generateResultsExcel writeFile tmpDir reviewBatch results jobId =
    (let fileName = ''analysis-results-'' @ jobId @ ''.xlsx'';
         filePath = tmpDir @ ''/'' @ fileName;
         worksheet = buildWorksheet reviewBatch results
     in case writeFile filePath worksheet of
          None \<Rightarrow>
            (\<lparr> writeSuccess = True, filePath = Some filePath, fileName = Some fileName,
               writeError = None \<rparr>,
             Some worksheet)
        | Some err \<Rightarrow>
            (\<lparr> writeSuccess = False, filePath = None, fileName = None,
               writeError = Some (''Failed to generate results Excel: '' @
                                  errorMessage err ''Unknown error'') \<rparr>,
             None))"

section \<open>The job store (storage.ts) and the orchestrator (routes.ts, processJob)\<close>

text \<open>The statuses \<^verbatim>\<open>queued\<close>, \<^verbatim>\<open>running\<close>, \<^verbatim>\<open>done\<close> and
  \<^verbatim>\<open>error\<close>. A row of the \<^verbatim>\<open>jobs\<close> table: its \<^verbatim>\<open>id\<close> is the field
  \<open>jobId\<close>; \<^verbatim>\<open>createdAt\<close>, set once by the database and never written by
  \<open>processJob\<close>, is left out.\<close>

datatype JobStatus = Queued | Running | Done | Error

record Job =
  jobId :: string
  reviewBatch :: string
  status :: JobStatus
  progress :: int
  message :: "string option"
  resultFileName :: "string option"
  totalEmployees :: "nat option"
  processedEmployees :: "nat option"
  results :: "AnalysisResult list option"

text \<open>The argument of \<^verbatim>\<open>updateJob\<close> is a \<^verbatim>\<open>Partial<Job>\<close>: \<open>None\<close> is a field the
  call leaves out, and the store keeps its old value.\<close>

record JobUpdate =
  newStatus :: "JobStatus option"
  newProgress :: "int option"
  newMessage :: "string option"
  newResultFileName :: "string option"
  newTotalEmployees :: "nat option"
  newProcessedEmployees :: "nat option"

definition noUpdate :: JobUpdate where
  "noUpdate = \<lparr> newStatus = None, newProgress = None, newMessage = None,
                newResultFileName = None, newTotalEmployees = None,
                newProcessedEmployees = None \<rparr>"

datatype StorageWrite = UpdateJob JobUpdate | StoreJobResults "AnalysisResult list"

definition createJob :: "string \<Rightarrow> string \<Rightarrow> Job" where
  "createJob newId batch =
     \<lparr> jobId = newId, reviewBatch = batch, status = Queued, progress = 0, message = None,
       resultFileName = None, totalEmployees = None, processedEmployees = None, results = None \<rparr>"

definition updateJob :: "Job \<Rightarrow> JobUpdate \<Rightarrow> Job" where
  "updateJob job updates =
     job\<lparr> status := (case newStatus updates of None \<Rightarrow> status job | Some v \<Rightarrow> v),
          progress := (case newProgress updates of None \<Rightarrow> progress job | Some v \<Rightarrow> v),
          message := (case newMessage updates of None \<Rightarrow> message job | Some v \<Rightarrow> Some v),
          resultFileName :=
            (case newResultFileName updates of None \<Rightarrow> resultFileName job | Some v \<Rightarrow> Some v),
          totalEmployees :=
            (case newTotalEmployees updates of None \<Rightarrow> totalEmployees job | Some v \<Rightarrow> Some v),
          processedEmployees :=
            (case newProcessedEmployees updates of None \<Rightarrow> processedEmployees job
             | Some v \<Rightarrow> Some v) \<rparr>"

fun applyWrite :: "Job \<Rightarrow> StorageWrite \<Rightarrow> Job" where
  "applyWrite job (UpdateJob updates) = updateJob job updates"
| "applyWrite job (StoreJobResults rs) = job\<lparr> results := Some rs \<rparr>"

text \<open>The row of the job after each write, the oldest first: what a reader polling the
  store can see.\<close>

fun jobTrace :: "Job \<Rightarrow> StorageWrite list \<Rightarrow> Job list" where
  "jobTrace job [] = [job]"
| "jobTrace job (w # ws) = job # jobTrace (applyWrite job w) ws"

fun progressWritten :: "StorageWrite \<Rightarrow> int option" where
  "progressWritten (UpdateJob updates) = newProgress updates"
| "progressWritten (StoreJobResults rs) = None"

text \<open>Template literals print a count in decimal.\<close>

fun showNat :: "nat \<Rightarrow> string" where
  "showNat n =
     (if n < 10 then [''0123456789'' ! n]
      else showNat (n div 10) @ [''0123456789'' ! (n mod 10)])"

text \<open>
  \<^verbatim>\<open>Math.round(10 + ((i + 1) / totalEmployees) * 70)\<close>. The three operations are on
  doubles: each yields the double nearest to the exact result, and \<open>fl\<close> stands for that
  rounding (the identity gives exact arithmetic). \<^verbatim>\<open>Math.round\<close> is exact: the
  nearest integer, a tie going up.
\<close>

definition mathRound :: "rat \<Rightarrow> int" where
  "mathRound x = \<lfloor>x + 1 / 2\<rfloor>"

definition recordProgress :: "(rat \<Rightarrow> rat) \<Rightarrow> nat \<Rightarrow> nat \<Rightarrow> int" where
  "recordProgress fl i totalCount =
     mathRound (fl (10 + fl (fl (of_nat (i + 1) / of_nat totalCount) * 70)))"

text \<open>The provider behind \<^verbatim>\<open>ILLMProvider\<close>: \<open>Inl\<close> is a call that throws.\<close>

type_synonym provider = "EmployeeData \<Rightarrow> thrown + AnalysisResult"

definition mockLLMProvider :: provider where
  "mockLLMProvider employee = Inr (analyze employee)"

definition analysisFailed :: "EmployeeData \<Rightarrow> AnalysisResult" where
  "analysisFailed employee =
     \<lparr> resultEmployeeId = employeeId employee,
       biasAssessment = ''Analysis failed'',
       valuesAlignment = Misaligned,
       ratingConsistency = Inconsistent,
       ratingConsistencyRationale = ''Unable to complete analysis'',
       aiRecommendation = RED,
       flagsTriggered = [''AnalysisError''] \<rparr>"

text \<open>The \<^verbatim>\<open>for\<close> loop of \<open>processJob\<close>, from index \<open>i\<close> on. Its state is the
  \<^verbatim>\<open>results\<close> array \<open>rs\<close> and the writes \<open>ws\<close> sent to the store so far.\<close>

function analysisLoop ::
    "provider \<Rightarrow> (rat \<Rightarrow> rat) \<Rightarrow> EmployeeData list \<Rightarrow> nat \<Rightarrow>
     AnalysisResult list \<times> StorageWrite list \<Rightarrow> AnalysisResult list \<times> StorageWrite list" where
  "analysisLoop llm fl emps i (rs, ws) =
     (if i < length emps then
        (let employee = emps ! i;
             rs = rs @ [case llm employee of
                          Inr result \<Rightarrow> result
                        | Inl err \<Rightarrow> analysisFailed employee];
             ws = ws @
               [UpdateJob (noUpdate\<lparr>
                  newProgress := Some (recordProgress fl i (length emps)),
                  newMessage := Some (''Analyzed '' @ showNat (i + 1) @ '' of '' @
                                      showNat (length emps) @ '' employees...''),
                  newProcessedEmployees := Some (i + 1) \<rparr>)]
         in analysisLoop llm fl emps (i + 1) (rs, ws))
      else (rs, ws))"
  by pat_completeness auto
termination
  by (relation "measure (\<lambda>(llm, fl, emps, i, st). length emps - i)") auto

declare analysisLoop.simps [simp del]

text \<open>The parser's \<^verbatim>\<open>ParseResult\<close>; its fields \<^verbatim>\<open>success\<close> and
  \<^verbatim>\<open>error\<close> are \<open>parseSuccess\<close> and \<open>parseError\<close> here.\<close>

record ParseResult =
  parseSuccess :: bool
  employees :: "EmployeeData list option"
  parseError :: "string option"

text \<open>\<^verbatim>\<open>x || fallback\<close> on an optional string: the fallback replaces \<^verbatim>\<open>undefined\<close>
  and the empty string.\<close>

fun orElse :: "string option \<Rightarrow> string \<Rightarrow> string" where
  "orElse None fallback = fallback"
| "orElse (Some m) fallback = (if m = [] then fallback else m)"

text \<open>
  \<open>processJob\<close> yields the writes it sends to the job store, in order. The spreadsheet
  parser's answer \<open>parseResult\<close>, the provider, the file system and the rounding of doubles
  are parameters. The store, the audit log and the history sink are taken not to throw, so
  the outermost \<^verbatim>\<open>catch\<close> is not entered; the audit log and the history sink write
  nothing to the job and are left out.
\<close>

definition processJob ::
    "provider \<Rightarrow> (rat \<Rightarrow> rat) \<Rightarrow> fileSystem \<Rightarrow> string \<Rightarrow> ParseResult \<Rightarrow>
     string \<Rightarrow> string \<Rightarrow> StorageWrite list" where
  "processJob llm fl writeFile tmpDir parseResult jid batch =
    (let writes = [UpdateJob (noUpdate\<lparr> newStatus := Some Running, newProgress := Some 5,
                                newMessage := Some ''Parsing Excel file...'' \<rparr>)]
     in case (if parseSuccess parseResult then employees parseResult else None) of
          None \<Rightarrow>
            writes @ [UpdateJob (noUpdate\<lparr>
                        newStatus := Some Error, newProgress := Some 0,
                        newMessage := Some (orElse (parseError parseResult)
                                              ''Failed to parse Excel file'') \<rparr>)]
        | Some emps \<Rightarrow>
            (let totalCount = length emps;
                 writes = writes @
                   [UpdateJob (noUpdate\<lparr>
                      newStatus := Some Running, newProgress := Some 10,
                      newMessage := Some (''Found '' @ showNat totalCount @
                                          '' employees. Starting analysis...''),
                      newTotalEmployees := Some totalCount,
                      newProcessedEmployees := Some 0 \<rparr>)];
                 (rs, writes) = analysisLoop llm fl emps 0 ([], writes);
                 writes = writes @
                   [UpdateJob (noUpdate\<lparr>
                      newProgress := Some 85,
                      newMessage := Some ''Generating results Excel file...'' \<rparr>)];
                 writeResult = fst (generateResultsExcel writeFile tmpDir batch rs jid)
             in if \<not> writeSuccess writeResult then
                  writes @ [UpdateJob (noUpdate\<lparr>
                              newStatus := Some Error, newProgress := Some 0,
                              newMessage := Some (orElse (writeError writeResult)
                                                    ''Failed to generate results file'') \<rparr>)]
                else
                  writes @
                    [StoreJobResults rs,
                     UpdateJob (noUpdate\<lparr>
                       newStatus := Some Done, newProgress := Some 100,
                       newMessage := Some ''Analysis complete'',
                       newResultFileName := fileName writeResult \<rparr>)]))"

text \<open>The job as the store holds it once \<open>processJob\<close> has returned.\<close>

definition finalJob :: "Job \<Rightarrow> StorageWrite list \<Rightarrow> Job" where
  "finalJob job writes = foldl applyWrite job writes"

section \<open>Vocabulary of the properties\<close>

text \<open>What \<open>normalizeRating\<close> returns for a label and what it appends to the flags,
  taken apart. The ordinal a label normalizes to: \<open>None\<close> is "unknown", which covers an absent
  label, a label outside the table, and a label that only finds an inherited property.\<close>

definition normalized :: "string option \<Rightarrow> ratingValue option" where
  "normalized rating = fst (normalizeRating rating [])"

definition unknownFlag :: "string option \<Rightarrow> string list" where
  "unknownFlag rating = snd (normalizeRating rating [])"

definition ordinalOf :: "string option \<Rightarrow> int option" where
  "ordinalOf rating = (case normalized rating of Some (Number n) \<Rightarrow> Some n | _ \<Rightarrow> None)"

datatype ratingPair = OverallPair | GoalsPair | ValuesPair

fun employeeSide :: "ratingPair \<Rightarrow> EmployeeData \<Rightarrow> string option" where
  "employeeSide OverallPair e = overallRatingEmployee e"
| "employeeSide GoalsPair e = goalEmployeeRating e"
| "employeeSide ValuesPair e = valuesEmployeeRating e"

fun managerSide :: "ratingPair \<Rightarrow> EmployeeData \<Rightarrow> string option" where
  "managerSide OverallPair e = overallRatingManager e"
| "managerSide GoalsPair e = goalManagerRating e"
| "managerSide ValuesPair e = valuesManagerRating e"

fun mismatchFlag :: "ratingPair \<Rightarrow> string" where
  "mismatchFlag OverallPair = ''RatingMismatch_Overall_2+Levels''"
| "mismatchFlag GoalsPair = ''RatingMismatch_Goals_2+Levels''"
| "mismatchFlag ValuesPair = ''RatingMismatch_Values_2+Levels''"

text \<open>The guard of a pair's mismatch check, and the flags the six normalizations append.\<close>

definition pairMismatch :: "ratingPair \<Rightarrow> EmployeeData \<Rightarrow> bool" where
  "pairMismatch p e = mismatch (normalized (employeeSide p e)) (normalized (managerSide p e))"

definition unknownFlags :: "EmployeeData \<Rightarrow> string list" where
  "unknownFlags e =
     unknownFlag (overallRatingEmployee e) @ unknownFlag (overallRatingManager e) @
     unknownFlag (goalEmployeeRating e) @ unknownFlag (goalManagerRating e) @
     unknownFlag (valuesEmployeeRating e) @ unknownFlag (valuesManagerRating e)"

definition complianceSentence :: string where
  "complianceSentence = ''Policy-sensitive content detected - requires HR review for compliance.''"

definition biasIndicatorSentence :: string where
  "biasIndicatorSentence =
     ''Potential bias indicators present: subjective language used without supporting evidence.''"

definition noBiasSentence :: string where
  "noBiasSentence = ''No significant bias indicators detected in the review narrative.''"

text \<open>One pass of the loop body, taken apart: the result pushed for a record and the write
  sent after record \<open>i\<close>.\<close>

definition recordOutcome :: "provider \<Rightarrow> EmployeeData \<Rightarrow> AnalysisResult" where
  "recordOutcome llm employee =
     (case llm employee of Inr result \<Rightarrow> result | Inl err \<Rightarrow> analysisFailed employee)"

definition loopWrite :: "(rat \<Rightarrow> rat) \<Rightarrow> EmployeeData list \<Rightarrow> nat \<Rightarrow> StorageWrite" where
  "loopWrite fl emps i =
     UpdateJob (noUpdate\<lparr>
       newProgress := Some (recordProgress fl i (length emps)),
       newMessage := Some (''Analyzed '' @ showNat (i + 1) @ '' of '' @
                           showNat (length emps) @ '' employees...''),
       newProcessedEmployees := Some (i + 1) \<rparr>)"

fun statusWritten :: "StorageWrite \<Rightarrow> JobStatus option" where
  "statusWritten (UpdateJob updates) = newStatus updates"
| "statusWritten (StoreJobResults rs) = None"

fun totalWritten :: "StorageWrite \<Rightarrow> nat option" where
  "totalWritten (UpdateJob updates) = newTotalEmployees updates"
| "totalWritten (StoreJobResults rs) = None"

fun resultsWritten :: "StorageWrite \<Rightarrow> AnalysisResult list option" where
  "resultsWritten (UpdateJob updates) = None"
| "resultsWritten (StoreJobResults rs) = Some rs"

text \<open>The other writes of \<open>processJob\<close>, by name.\<close>

definition parsingWrite :: StorageWrite where
  "parsingWrite =
     UpdateJob (noUpdate\<lparr> newStatus := Some Running, newProgress := Some 5,
                          newMessage := Some ''Parsing Excel file...'' \<rparr>)"

definition foundWrite :: "nat \<Rightarrow> StorageWrite" where
  "foundWrite n =
     UpdateJob (noUpdate\<lparr> newStatus := Some Running, newProgress := Some 10,
                          newMessage := Some (''Found '' @ showNat n @
                                              '' employees. Starting analysis...''),
                          newTotalEmployees := Some n,
                          newProcessedEmployees := Some 0 \<rparr>)"

definition generatingWrite :: StorageWrite where
  "generatingWrite =
     UpdateJob (noUpdate\<lparr> newProgress := Some 85,
                          newMessage := Some ''Generating results Excel file...'' \<rparr>)"

definition failedWrite :: "string \<Rightarrow> StorageWrite" where
  "failedWrite msg =
     UpdateJob (noUpdate\<lparr> newStatus := Some Error, newProgress := Some 0,
                          newMessage := Some msg \<rparr>)"

definition doneWrite :: "string option \<Rightarrow> StorageWrite" where
  "doneWrite name =
     UpdateJob (noUpdate\<lparr> newStatus := Some Done, newProgress := Some 100,
                          newMessage := Some ''Analysis complete'',
                          newResultFileName := name \<rparr>)"

text \<open>The parser's answer lets the job go on: \<^verbatim>\<open>success\<close> is set and
  \<^verbatim>\<open>employees\<close> is there.\<close>

definition parsedEmployees :: "ParseResult \<Rightarrow> EmployeeData list option" where
  "parsedEmployees parseResult =
     (if parseSuccess parseResult then employees parseResult else None)"

section \<open>Example inputs\<close>

text \<open>A batch of three records, a provider that throws on the second, a disk that takes
  every file, exact arithmetic for the progress formula, and the run of \<open>processJob\<close> on
  them.\<close>

definition exampleEmployee :: "string \<Rightarrow> string option \<Rightarrow> EmployeeData" where
  "exampleEmployee eid comments =
     \<lparr> employeeId = eid, goalEmployeeRating = Some ''Meets'', goalManagerRating = Some ''Meets'',
       valuesEmployeeRating = None, valuesManagerRating = None,
       overallRatingEmployee = Some ''Exceeds'', overallRatingManager = Some ''Meets'',
       managerComments = comments \<rparr>"

definition exampleBatch :: "EmployeeData list" where
  "exampleBatch =
     [exampleEmployee ''E1'' (Some ''Delivered the quarterly plan on time.''),
      exampleEmployee ''E2'' None,
      exampleEmployee ''E3'' (Some ''Good'')]"

definition exampleParse :: ParseResult where
  "exampleParse = \<lparr> parseSuccess = True, employees = Some exampleBatch, parseError = None \<rparr>"

definition failsOnE2 :: provider where
  "failsOnE2 employee =
     (if employeeId employee = ''E2'' then Inl (ErrorObject ''provider unavailable'')
      else mockLLMProvider employee)"

definition diskOk :: fileSystem where
  "diskOk path sheet = None"

definition exact :: "rat \<Rightarrow> rat" where
  "exact x = x"

definition exampleRun :: "StorageWrite list" where
  "exampleRun = processJob failsOnE2 exact diskOk ''/app/tmp'' exampleParse ''job-1'' ''Q1''"

definition exampleResult :: AnalysisResult where
  "exampleResult =
     \<lparr> resultEmployeeId = ''E2'', biasAssessment = ''Analysis failed'',
       valuesAlignment = Misaligned, ratingConsistency = Inconsistent,
       ratingConsistencyRationale = ''Unable to complete analysis'',
       aiRecommendation = RED, flagsTriggered = [''AnalysisError''] \<rparr>"

section \<open>The rule engine: what \<open>analyze\<close> computes\<close>

lemma normalizeRating_eq: "normalizeRating r fl = (normalized r, fl @ unknownFlag r)"
  by (simp add: normalizeRating_def normalized_def unknownFlag_def Let_def split: option.splits)

lemma set_foldl_setAdd: "set (foldl setAdd acc xs) = set acc \<union> set xs"
  by (induction xs arbitrary: acc) (auto simp: setAdd_def)

lemma set_arrayFromSet: "set (arrayFromSet xs) = set xs"
  by (simp add: arrayFromSet_def set_foldl_setAdd)

lemma distinct_foldl_setAdd: "distinct acc \<Longrightarrow> distinct (foldl setAdd acc xs)"
  by (induction xs arbitrary: acc) (auto simp: setAdd_def)

lemma distinct_arrayFromSet: "distinct (arrayFromSet xs)"
  by (simp add: arrayFromSet_def distinct_foldl_setAdd)

lemma unknownFlag_cases: "unknownFlag r = [] \<or> unknownFlag r = [''UnknownRatingLabel'']"
  by (simp add: normalizeRating_def unknownFlag_def Let_def split: option.splits)

lemma set_unknownFlags: "set (unknownFlags e) \<subseteq> {''UnknownRatingLabel''}"
  unfolding unknownFlags_def
  using unknownFlag_cases [of "overallRatingEmployee e"]
    unknownFlag_cases [of "overallRatingManager e"]
    unknownFlag_cases [of "goalEmployeeRating e"]
    unknownFlag_cases [of "goalManagerRating e"]
    unknownFlag_cases [of "valuesEmployeeRating e"]
    unknownFlag_cases [of "valuesManagerRating e"]
  by auto

lemma escalate_step:
  "(if c then (f @ [x], RED) else (f, r)) = (f @ (if c then [x] else []), if c then RED else r)"
  by (cases c) simp_all

lemma set_if_single: "set (if c then [x] else []) = (if c then {x} else {})"
  by (cases c) simp_all

text \<open>The flags of a result, as a set: the unknown-label flags of the six normalizations and
  one flag per rule whose guard holds.\<close>

lemma flags_analyze:
  "set (flagsTriggered (analyze e)) =
     set (unknownFlags e) \<union>
     (if pairMismatch OverallPair e then {''RatingMismatch_Overall_2+Levels''} else {}) \<union>
     (if pairMismatch GoalsPair e then {''RatingMismatch_Goals_2+Levels''} else {}) \<union>
     (if pairMismatch ValuesPair e then {''RatingMismatch_Values_2+Levels''} else {}) \<union>
     (if narrativeInsufficient (managerComments e) then {''NarrativeInsufficient''} else {}) \<union>
     (if hasLoadedLanguage (lowerComments (managerComments e)) \<and>
         \<not> hasConcreteEvidence (lowerComments (managerComments e))
      then {''LoadedLanguage_NoEvidence''} else {}) \<union>
     (if hasPolicySensitive (lowerComments (managerComments e))
      then {''PolicySensitive_EscalateHR''} else {})"
  by (simp add: analyze_def normalizeRating_eq Let_def split_def set_arrayFromSet
        unknownFlags_def pairMismatch_def Un_assoc escalate_step set_if_single
        split del: if_split)

lemma recommendation_analyze:
  "aiRecommendation (analyze e) =
     (if pairMismatch OverallPair e \<or> pairMismatch GoalsPair e \<or> pairMismatch ValuesPair e \<or>
         narrativeInsufficient (managerComments e) \<or>
         (hasLoadedLanguage (lowerComments (managerComments e)) \<and>
          \<not> hasConcreteEvidence (lowerComments (managerComments e))) \<or>
         hasPolicySensitive (lowerComments (managerComments e))
      then RED else GREEN)"
  by (simp add: analyze_def normalizeRating_eq Let_def split_def pairMismatch_def escalate_step)

lemma biasAssessment_analyze:
  "biasAssessment (analyze e) =
     (if hasPolicySensitive (lowerComments (managerComments e)) then complianceSentence
      else if hasLoadedLanguage (lowerComments (managerComments e)) then biasIndicatorSentence
      else noBiasSentence)"
  by (simp add: analyze_def normalizeRating_eq Let_def split_def complianceSentence_def
      biasIndicatorSentence_def noBiasSentence_def)

lemma valuesAlignment_analyze:
  "valuesAlignment (analyze e) =
     (case (normalized (valuesEmployeeRating e), normalized (valuesManagerRating e)) of
        (Some ve, Some vm) \<Rightarrow>
          if geq (absDiff ve vm) 2 then Misaligned
          else if strictEq (absDiff ve vm) 1 then PartiallyAligned else Aligned
      | _ \<Rightarrow> Aligned)"
  by (simp add: analyze_def normalizeRating_eq Let_def split_def split: option.splits)

lemma ratingMap_range: "map_of ratingMap k = Some n \<Longrightarrow> n \<in> {1, 2, 3}"
  by (simp add: ratingMap_def split: if_splits)

lemma ordinalOf_range: "ordinalOf r = Some a \<Longrightarrow> a \<in> {1, 2, 3}"
  by (auto simp: ordinalOf_def normalized_def normalizeRating_def ratingLookup_def Let_def
      split: option.splits if_splits ratingValue.splits dest: ratingMap_range)

lemma mismatch_ordinalOf:
  "mismatch (normalized x) (normalized y) \<longleftrightarrow>
   (\<exists>a b. ordinalOf x = Some a \<and> ordinalOf y = Some b \<and> \<bar>a - b\<bar> \<ge> 2)"
proof (cases "normalized x")
  case None
  then show ?thesis by (simp add: ordinalOf_def)
next
  case (Some u)
  show ?thesis
  proof (cases "normalized y")
    case None
    then show ?thesis by (simp add: ordinalOf_def Some)
  next
    case (Some v)
    with \<open>normalized x = Some u\<close> show ?thesis
      by (cases u; cases v) (simp_all add: ordinalOf_def)
  qed
qed

lemma pairMismatch_iff:
  "pairMismatch p e \<longleftrightarrow>
   (\<exists>a b. ordinalOf (employeeSide p e) = Some a \<and> ordinalOf (managerSide p e) = Some b \<and>
          \<bar>a - b\<bar> \<ge> 2)"
  by (simp add: pairMismatch_def mismatch_ordinalOf)

lemma mismatchFlag_in_flags:
  "mismatchFlag p \<in> set (flagsTriggered (analyze e)) \<longleftrightarrow> pairMismatch p e"
  using set_unknownFlags [of e]
  by (cases p) (auto simp: flags_analyze split: if_splits)

lemma pairMismatch_RED: "pairMismatch p e \<Longrightarrow> aiRecommendation (analyze e) = RED"
  by (cases p) (simp_all add: recommendation_analyze)

lemma trim_Nil: "trim [] = []"
  by (simp add: trim_def)

lemma narrativeInsufficient_iff:
  "narrativeInsufficient mc \<longleftrightarrow> (case mc of None \<Rightarrow> True | Some c \<Rightarrow> length (trim c) < 20)"
  by (auto simp: narrativeInsufficient_def trim_Nil split: option.splits)

lemma narrative_flag_in_flags:
  "''NarrativeInsufficient'' \<in> set (flagsTriggered (analyze e)) \<longleftrightarrow>
   narrativeInsufficient (managerComments e)"
  using set_unknownFlags [of e]
  by (auto simp: flags_analyze split: if_splits)

lemma startsWith_map:
  "startsWith s t \<Longrightarrow> \<forall>x \<in> set t. f x = x \<Longrightarrow> startsWith (map f s) t"
  by (induction s t rule: startsWith.induct) auto

lemma strIncludes_map:
  "strIncludes s t \<Longrightarrow> \<forall>x \<in> set t. f x = x \<Longrightarrow> strIncludes (map f s) t"
proof (induction s)
  case Nil
  then show ?case by simp
next
  case (Cons c cs)
  from Cons.prems(1) have "startsWith (c # cs) t \<or> strIncludes cs t" by simp
  then show ?case
  proof
    assume "startsWith (c # cs) t"
    then have "startsWith (map f (c # cs)) t" using Cons.prems(2) by (rule startsWith_map)
    then show ?thesis by simp
  next
    assume "strIncludes cs t"
    then have "strIncludes (map f cs) t" using Cons.prems(2) by (rule Cons.IH)
    then show ?thesis by simp
  qed
qed

lemma age_lower: "\<forall>x \<in> set ''age''. toLowerChar x = x"
  by (simp add: toLowerChar_def)

lemma hasPolicySensitive_age: "strIncludes comments ''age'' \<Longrightarrow> hasPolicySensitive comments"
  by (simp add: hasPolicySensitive_def policySensitiveTerms_def)

section \<open>Claims about the rule engine\<close>

text \<open>
  C1, as stated: the recommendation is RED if and only if the flags are non-empty. It fails
  for a record whose only finding is a rating label outside the table: \<open>normalizeRating\<close>
  pushes \<^verbatim>\<open>UnknownRatingLabel\<close> and leaves the recommendation alone, so the result is
  GREEN with one flag.
\<close>

theorem red_iff_nonempty_flags_counterexample:
  "\<not> (aiRecommendation (analyze
          \<lparr> employeeId = ''E1'', goalEmployeeRating = None, goalManagerRating = None,
            valuesEmployeeRating = None, valuesManagerRating = None,
            overallRatingEmployee = Some ''Great'', overallRatingManager = Some ''Meets'',
            managerComments = Some ''Delivered the quarterly plan on time.'' \<rparr>) = RED
        \<longleftrightarrow>
        set (flagsTriggered (analyze
          \<lparr> employeeId = ''E1'', goalEmployeeRating = None, goalManagerRating = None,
            valuesEmployeeRating = None, valuesManagerRating = None,
            overallRatingEmployee = Some ''Great'', overallRatingManager = Some ''Meets'',
            managerComments = Some ''Delivered the quarterly plan on time.'' \<rparr>)) \<noteq> {})"
  by code_simp

text \<open>
  C1, amended: the recommendation is RED if and only if the flags contain a flag other than
  \<^verbatim>\<open>UnknownRatingLabel\<close>. In particular every RED result has a flag, and a GREEN
  result has no flag or that one only.
\<close>

theorem red_iff_escalation_flag:
  "aiRecommendation (analyze e) = RED \<longleftrightarrow>
   \<not> set (flagsTriggered (analyze e)) \<subseteq> {''UnknownRatingLabel''}"
  using set_unknownFlags [of e]
  by (auto simp: flags_analyze recommendation_analyze split: if_splits)

theorem red_iff_escalation_flag_witness:
  "aiRecommendation (analyze
      \<lparr> employeeId = ''E2'', goalEmployeeRating = None, goalManagerRating = None,
        valuesEmployeeRating = None, valuesManagerRating = None,
        overallRatingEmployee = Some ''Great'', overallRatingManager = None,
        managerComments = Some ''Too short'' \<rparr>) = RED \<and>
   \<not> set (flagsTriggered (analyze
      \<lparr> employeeId = ''E2'', goalEmployeeRating = None, goalManagerRating = None,
        valuesEmployeeRating = None, valuesManagerRating = None,
        overallRatingEmployee = Some ''Great'', overallRatingManager = None,
        managerComments = Some ''Too short'' \<rparr>)) \<subseteq> {''UnknownRatingLabel''}"
proof -
  have "aiRecommendation (analyze
      \<lparr> employeeId = ''E2'', goalEmployeeRating = None, goalManagerRating = None,
        valuesEmployeeRating = None, valuesManagerRating = None,
        overallRatingEmployee = Some ''Great'', overallRatingManager = None,
        managerComments = Some ''Too short'' \<rparr>) = RED"
    by code_simp
  then show ?thesis
    using red_iff_escalation_flag [of "\<lparr> employeeId = ''E2'', goalEmployeeRating = None,
        goalManagerRating = None, valuesEmployeeRating = None, valuesManagerRating = None,
        overallRatingEmployee = Some ''Great'', overallRatingManager = None,
        managerComments = Some ''Too short'' \<rparr>"]
    by blast
qed

text \<open>
  C2: the bias sentence is chosen by \<^verbatim>\<open>hasPolicySensitive\<close> and
  \<^verbatim>\<open>hasLoadedLanguage\<close> (lemma \<open>biasAssessment_analyze\<close>), and the second is the bare
  term scan, not the guard of the \<^verbatim>\<open>LoadedLanguage_NoEvidence\<close> flag. A narrative with
  a loaded term, an evidence marker and no policy-sensitive term gets the bias-indicator
  sentence, whose own words are "without supporting evidence", next to an empty flag list.
\<close>

theorem bias_sentence_with_evidence:
  "biasAssessment (analyze
      \<lparr> employeeId = ''E1'', goalEmployeeRating = None, goalManagerRating = None,
        valuesEmployeeRating = None, valuesManagerRating = None,
        overallRatingEmployee = None, overallRatingManager = None,
        managerComments = Some ''Too aggressive, for example in the March review.'' \<rparr>)
     = ''Potential bias indicators present: subjective language used without supporting evidence.''
   \<and> flagsTriggered (analyze
      \<lparr> employeeId = ''E1'', goalEmployeeRating = None, goalManagerRating = None,
        valuesEmployeeRating = None, valuesManagerRating = None,
        overallRatingEmployee = None, overallRatingManager = None,
        managerComments = Some ''Too aggressive, for example in the March review.'' \<rparr>) = []"
  by code_simp

text \<open>
  C3: for each rating pair \<open>p\<close>: when both sides normalize to ordinals \<open>a\<close> and \<open>b\<close>, these
  lie in {1,2,3}; if they differ by at least 2 the pair's mismatch flag is among the flags
  and the recommendation is RED; if they differ by at most 1, or a side is unknown, the
  pair's mismatch flag is absent.
\<close>

theorem rating_mismatch_flag:
  "(\<forall>a b. ordinalOf (employeeSide p e) = Some a \<and> ordinalOf (managerSide p e) = Some b \<longrightarrow>
      a \<in> {1, 2, 3} \<and> b \<in> {1, 2, 3} \<and>
      (\<bar>a - b\<bar> \<ge> 2 \<longrightarrow> mismatchFlag p \<in> set (flagsTriggered (analyze e)) \<and>
                        aiRecommendation (analyze e) = RED) \<and>
      (\<bar>a - b\<bar> \<le> 1 \<longrightarrow> mismatchFlag p \<notin> set (flagsTriggered (analyze e)))) \<and>
   (ordinalOf (employeeSide p e) = None \<or> ordinalOf (managerSide p e) = None \<longrightarrow>
      mismatchFlag p \<notin> set (flagsTriggered (analyze e)))"
proof (intro conjI allI impI)
  fix a b
  assume ab: "ordinalOf (employeeSide p e) = Some a \<and> ordinalOf (managerSide p e) = Some b"
  show "a \<in> {1, 2, 3}" using ab ordinalOf_range by blast
  show "b \<in> {1, 2, 3}" using ab ordinalOf_range by blast
  {
    assume "\<bar>a - b\<bar> \<ge> 2"
    with ab have pm: "pairMismatch p e" unfolding pairMismatch_iff by blast
    then show "mismatchFlag p \<in> set (flagsTriggered (analyze e))"
      by (simp only: mismatchFlag_in_flags)
    from pm show "aiRecommendation (analyze e) = RED" by (rule pairMismatch_RED)
  }
  {
    assume "\<bar>a - b\<bar> \<le> 1"
    with ab have "\<not> pairMismatch p e" unfolding pairMismatch_iff by auto
    then show "mismatchFlag p \<notin> set (flagsTriggered (analyze e))"
      by (simp only: mismatchFlag_in_flags not_False_eq_True)
  }
next
  assume "ordinalOf (employeeSide p e) = None \<or> ordinalOf (managerSide p e) = None"
  then have "\<not> pairMismatch p e" unfolding pairMismatch_iff by auto
  then show "mismatchFlag p \<notin> set (flagsTriggered (analyze e))"
    by (simp only: mismatchFlag_in_flags not_False_eq_True)
qed

theorem rating_mismatch_flag_witness:
  "ordinalOf (Some ''Exceeds Expectations'') = Some 3 \<and>
   ordinalOf (Some ''Does Not Meet Expectations'') = Some 1 \<and>
   ordinalOf (Some ''Meets'') = Some 2 \<and>
   ordinalOf (Some ''Great'') = None \<and>
   ''RatingMismatch_Overall_2+Levels'' \<in> set (flagsTriggered (analyze
      \<lparr> employeeId = ''E3'', goalEmployeeRating = Some ''Exceeds Expectations'',
        goalManagerRating = Some ''Meets'',
        valuesEmployeeRating = Some ''Great'', valuesManagerRating = Some ''Meets'',
        overallRatingEmployee = Some ''Exceeds Expectations'',
        overallRatingManager = Some ''Does Not Meet Expectations'',
        managerComments = None \<rparr>)) \<and>
   aiRecommendation (analyze
      \<lparr> employeeId = ''E3'', goalEmployeeRating = Some ''Exceeds Expectations'',
        goalManagerRating = Some ''Meets'',
        valuesEmployeeRating = Some ''Great'', valuesManagerRating = Some ''Meets'',
        overallRatingEmployee = Some ''Exceeds Expectations'',
        overallRatingManager = Some ''Does Not Meet Expectations'',
        managerComments = None \<rparr>) = RED \<and>
   ''RatingMismatch_Goals_2+Levels'' \<notin> set (flagsTriggered (analyze
      \<lparr> employeeId = ''E3'', goalEmployeeRating = Some ''Exceeds Expectations'',
        goalManagerRating = Some ''Meets'',
        valuesEmployeeRating = Some ''Great'', valuesManagerRating = Some ''Meets'',
        overallRatingEmployee = Some ''Exceeds Expectations'',
        overallRatingManager = Some ''Does Not Meet Expectations'',
        managerComments = None \<rparr>)) \<and>
   ''RatingMismatch_Values_2+Levels'' \<notin> set (flagsTriggered (analyze
      \<lparr> employeeId = ''E3'', goalEmployeeRating = Some ''Exceeds Expectations'',
        goalManagerRating = Some ''Meets'',
        valuesEmployeeRating = Some ''Great'', valuesManagerRating = Some ''Meets'',
        overallRatingEmployee = Some ''Exceeds Expectations'',
        overallRatingManager = Some ''Does Not Meet Expectations'',
        managerComments = None \<rparr>))"
proof -
  have o3: "ordinalOf (Some ''Exceeds Expectations'') = Some 3" by code_simp
  have o1: "ordinalOf (Some ''Does Not Meet Expectations'') = Some 1" by code_simp
  have o2: "ordinalOf (Some ''Meets'') = Some 2" by code_simp
  have o0: "ordinalOf (Some ''Great'') = None" by code_simp
  show ?thesis
    using rating_mismatch_flag [of OverallPair "\<lparr> employeeId = ''E3'',
        goalEmployeeRating = Some ''Exceeds Expectations'', goalManagerRating = Some ''Meets'',
        valuesEmployeeRating = Some ''Great'', valuesManagerRating = Some ''Meets'',
        overallRatingEmployee = Some ''Exceeds Expectations'',
        overallRatingManager = Some ''Does Not Meet Expectations'',
        managerComments = None \<rparr>"]
      rating_mismatch_flag [of GoalsPair "\<lparr> employeeId = ''E3'',
        goalEmployeeRating = Some ''Exceeds Expectations'', goalManagerRating = Some ''Meets'',
        valuesEmployeeRating = Some ''Great'', valuesManagerRating = Some ''Meets'',
        overallRatingEmployee = Some ''Exceeds Expectations'',
        overallRatingManager = Some ''Does Not Meet Expectations'',
        managerComments = None \<rparr>"]
      rating_mismatch_flag [of ValuesPair "\<lparr> employeeId = ''E3'',
        goalEmployeeRating = Some ''Exceeds Expectations'', goalManagerRating = Some ''Meets'',
        valuesEmployeeRating = Some ''Great'', valuesManagerRating = Some ''Meets'',
        overallRatingEmployee = Some ''Exceeds Expectations'',
        overallRatingManager = Some ''Does Not Meet Expectations'',
        managerComments = None \<rparr>"]
    by (simp add: o0 o1 o2 o3)
qed

text \<open>
  C4: \<^verbatim>\<open>NarrativeInsufficient\<close> is among the flags exactly when the narrative is absent
  or its trimmed length is below 20, and then the recommendation is RED; a trimmed length of
  19 gets the flag and one of 20 does not.
\<close>

theorem narrative_insufficient_flag:
  "(''NarrativeInsufficient'' \<in> set (flagsTriggered (analyze e)) \<longleftrightarrow>
      (case managerComments e of None \<Rightarrow> True | Some c \<Rightarrow> length (trim c) < 20)) \<and>
   (''NarrativeInsufficient'' \<in> set (flagsTriggered (analyze e)) \<longrightarrow>
      aiRecommendation (analyze e) = RED) \<and>
   (\<forall>c. managerComments e = Some c \<and> length (trim c) = 19 \<longrightarrow>
      ''NarrativeInsufficient'' \<in> set (flagsTriggered (analyze e))) \<and>
   (\<forall>c. managerComments e = Some c \<and> length (trim c) = 20 \<longrightarrow>
      ''NarrativeInsufficient'' \<notin> set (flagsTriggered (analyze e)))"
  by (simp add: narrative_flag_in_flags narrativeInsufficient_iff recommendation_analyze
      split: option.splits)

theorem narrative_insufficient_flag_witness:
  "length (trim '' Solid results in Q3 '') = 19 \<and>
   ''NarrativeInsufficient'' \<in> set (flagsTriggered (analyze
      \<lparr> employeeId = ''E4'', goalEmployeeRating = None, goalManagerRating = None,
        valuesEmployeeRating = None, valuesManagerRating = None,
        overallRatingEmployee = None, overallRatingManager = None,
        managerComments = Some '' Solid results in Q3 '' \<rparr>)) \<and>
   aiRecommendation (analyze
      \<lparr> employeeId = ''E4'', goalEmployeeRating = None, goalManagerRating = None,
        valuesEmployeeRating = None, valuesManagerRating = None,
        overallRatingEmployee = None, overallRatingManager = None,
        managerComments = Some '' Solid results in Q3 '' \<rparr>) = RED \<and>
   length (trim ''Solid results in Q3.'') = 20 \<and>
   ''NarrativeInsufficient'' \<notin> set (flagsTriggered (analyze
      \<lparr> employeeId = ''E5'', goalEmployeeRating = None, goalManagerRating = None,
        valuesEmployeeRating = None, valuesManagerRating = None,
        overallRatingEmployee = None, overallRatingManager = None,
        managerComments = Some ''Solid results in Q3.'' \<rparr>))"
proof -
  have l19: "length (trim '' Solid results in Q3 '') = 19" by code_simp
  have l20: "length (trim ''Solid results in Q3.'') = 20" by code_simp
  show ?thesis
    using narrative_insufficient_flag [of "\<lparr> employeeId = ''E4'', goalEmployeeRating = None,
        goalManagerRating = None, valuesEmployeeRating = None, valuesManagerRating = None,
        overallRatingEmployee = None, overallRatingManager = None,
        managerComments = Some '' Solid results in Q3 '' \<rparr>"]
      narrative_insufficient_flag [of "\<lparr> employeeId = ''E5'', goalEmployeeRating = None,
        goalManagerRating = None, valuesEmployeeRating = None, valuesManagerRating = None,
        overallRatingEmployee = None, overallRatingManager = None,
        managerComments = Some ''Solid results in Q3.'' \<rparr>"]
    by (simp add: l19 l20)
qed

text \<open>
  C5: the values alignment is a function of the two values ratings alone: when both
  normalize to ordinals, a difference of 0 gives Aligned, of 1 Partially aligned, and a
  larger one Misaligned (the ordinals lie in {1,2,3}, so that is a difference of 2); when
  either is unknown or absent it is Aligned.
\<close>

theorem values_alignment_tier:
  "valuesAlignment (analyze e) =
     (case (ordinalOf (valuesEmployeeRating e), ordinalOf (valuesManagerRating e)) of
        (Some a, Some b) \<Rightarrow>
          if \<bar>a - b\<bar> = 0 then Aligned
          else if \<bar>a - b\<bar> = 1 then PartiallyAligned
          else Misaligned
      | _ \<Rightarrow> Aligned)"
proof (cases "normalized (valuesEmployeeRating e)")
  case None
  then show ?thesis by (simp add: valuesAlignment_analyze ordinalOf_def)
next
  case (Some u)
  note u = this
  show ?thesis
  proof (cases "normalized (valuesManagerRating e)")
    case None
    then show ?thesis using u
      by (cases u) (simp_all add: valuesAlignment_analyze ordinalOf_def)
  next
    case (Some v)
    then show ?thesis using u
      by (cases u; cases v) (auto simp: valuesAlignment_analyze ordinalOf_def)
  qed
qed

theorem values_alignment_tier_witness:
  "valuesAlignment (analyze
      \<lparr> employeeId = ''E6'', goalEmployeeRating = None, goalManagerRating = None,
        valuesEmployeeRating = Some ''Exceeds'', valuesManagerRating = Some ''Below'',
        overallRatingEmployee = None, overallRatingManager = None,
        managerComments = None \<rparr>) = Misaligned \<and>
   valuesAlignment (analyze
      \<lparr> employeeId = ''E7'', goalEmployeeRating = None, goalManagerRating = None,
        valuesEmployeeRating = Some ''Exceeds'', valuesManagerRating = Some ''Meets'',
        overallRatingEmployee = None, overallRatingManager = None,
        managerComments = None \<rparr>) = PartiallyAligned \<and>
   valuesAlignment (analyze
      \<lparr> employeeId = ''E8'', goalEmployeeRating = None, goalManagerRating = None,
        valuesEmployeeRating = Some ''Exceeds'', valuesManagerRating = Some ''Great'',
        overallRatingEmployee = None, overallRatingManager = None,
        managerComments = None \<rparr>) = Aligned"
proof -
  have o3: "ordinalOf (Some ''Exceeds'') = Some 3" by code_simp
  have o1: "ordinalOf (Some ''Below'') = Some 1" by code_simp
  have o2: "ordinalOf (Some ''Meets'') = Some 2" by code_simp
  have o0: "ordinalOf (Some ''Great'') = None" by code_simp
  show ?thesis
    using values_alignment_tier [of "\<lparr> employeeId = ''E6'', goalEmployeeRating = None,
        goalManagerRating = None,
        valuesEmployeeRating = Some ''Exceeds'', valuesManagerRating = Some ''Below'',
        overallRatingEmployee = None, overallRatingManager = None, managerComments = None \<rparr>"]
      values_alignment_tier [of "\<lparr> employeeId = ''E7'', goalEmployeeRating = None,
        goalManagerRating = None,
        valuesEmployeeRating = Some ''Exceeds'', valuesManagerRating = Some ''Meets'',
        overallRatingEmployee = None, overallRatingManager = None, managerComments = None \<rparr>"]
      values_alignment_tier [of "\<lparr> employeeId = ''E8'', goalEmployeeRating = None,
        goalManagerRating = None,
        valuesEmployeeRating = Some ''Exceeds'', valuesManagerRating = Some ''Great'',
        overallRatingEmployee = None, overallRatingManager = None, managerComments = None \<rparr>"]
    by (simp add: o0 o1 o2 o3)
qed

text \<open>
  C10: the policy-sensitive scan is plain substring containment on the lower-cased
  narrative, so a narrative that contains \<^verbatim>\<open>age\<close> anywhere, inside "manager" for one,
  gets \<^verbatim>\<open>PolicySensitive_EscalateHR\<close> and RED, whatever the ratings and the evidence
  markers.
\<close>

theorem policy_sensitive_age_substring:
  assumes "managerComments e = Some c" and "strIncludes c ''age''"
  shows "''PolicySensitive_EscalateHR'' \<in> set (flagsTriggered (analyze e)) \<and>
         aiRecommendation (analyze e) = RED"
proof -
  have "strIncludes (toLowerCase c) ''age''"
    unfolding toLowerCase_def using assms(2) age_lower by (rule strIncludes_map)
  then have "hasPolicySensitive (lowerComments (managerComments e))"
    by (simp add: lowerComments_def assms(1) hasPolicySensitive_age)
  then show ?thesis by (simp add: flags_analyze recommendation_analyze)
qed

theorem policy_sensitive_age_substring_witness:
  "strIncludes ''Our manager praised the work, for example the audit.'' ''age'' \<and>
   ''PolicySensitive_EscalateHR'' \<in> set (flagsTriggered (analyze
      \<lparr> employeeId = ''E9'', goalEmployeeRating = Some ''Meets'',
        goalManagerRating = Some ''Meets'',
        valuesEmployeeRating = Some ''Meets'', valuesManagerRating = Some ''Meets'',
        overallRatingEmployee = Some ''Meets'', overallRatingManager = Some ''Meets'',
        managerComments = Some ''Our manager praised the work, for example the audit.'' \<rparr>)) \<and>
   aiRecommendation (analyze
      \<lparr> employeeId = ''E9'', goalEmployeeRating = Some ''Meets'',
        goalManagerRating = Some ''Meets'',
        valuesEmployeeRating = Some ''Meets'', valuesManagerRating = Some ''Meets'',
        overallRatingEmployee = Some ''Meets'', overallRatingManager = Some ''Meets'',
        managerComments = Some ''Our manager praised the work, for example the audit.'' \<rparr>) = RED"
proof -
  have inc: "strIncludes ''Our manager praised the work, for example the audit.'' ''age''"
    by simp
  show ?thesis
    using inc policy_sensitive_age_substring [OF _ inc, of "\<lparr> employeeId = ''E9'',
        goalEmployeeRating = Some ''Meets'', goalManagerRating = Some ''Meets'',
        valuesEmployeeRating = Some ''Meets'', valuesManagerRating = Some ''Meets'',
        overallRatingEmployee = Some ''Meets'', overallRatingManager = Some ''Meets'',
        managerComments = Some ''Our manager praised the work, for example the audit.'' \<rparr>"]
    by simp
qed

section \<open>The orchestrator: what \<open>processJob\<close> writes\<close>

lemma analysisLoop_eq:
  "i \<le> length emps \<Longrightarrow>
   analysisLoop llm fl emps i (rs, ws) =
     (rs @ map (recordOutcome llm) (drop i emps), ws @ map (loopWrite fl emps) [i..<length emps])"
proof (induction llm fl emps i "(rs, ws)" arbitrary: rs ws rule: analysisLoop.induct)
  case (1 llm fl emps i rs ws)
  show ?case
  proof (cases "i < length emps")
    case True
    have step: "analysisLoop llm fl emps i (rs, ws) =
        analysisLoop llm fl emps (i + 1)
          (rs @ [recordOutcome llm (emps ! i)], ws @ [loopWrite fl emps i])"
      using True by (subst analysisLoop.simps) (simp add: recordOutcome_def loopWrite_def Let_def)
    have ih: "analysisLoop llm fl emps (i + 1)
          (rs @ [recordOutcome llm (emps ! i)], ws @ [loopWrite fl emps i]) =
        ((rs @ [recordOutcome llm (emps ! i)]) @ map (recordOutcome llm) (drop (i + 1) emps),
         (ws @ [loopWrite fl emps i]) @ map (loopWrite fl emps) [i + 1..<length emps])"
      using True by (intro "1.hyps") (auto simp: recordOutcome_def loopWrite_def)
    show ?thesis
      unfolding step ih using True
      by (simp add: Cons_nth_drop_Suc [symmetric] upt_conv_Cons)
  next
    case False
    with "1.prems" have "i = length emps" by simp
    then show ?thesis by (subst analysisLoop.simps) simp
  qed
qed

lemma processJob_parse_failed:
  "parsedEmployees pr = None \<Longrightarrow>
   processJob llm fl writeFile tmpDir pr jid batch =
     [parsingWrite, failedWrite (orElse (parseError pr) ''Failed to parse Excel file'')]"
  by (simp add: processJob_def parsedEmployees_def parsingWrite_def failedWrite_def
      split: if_splits)

lemma processJob_parsed:
  assumes "parsedEmployees pr = Some emps"
  shows "processJob llm fl writeFile tmpDir pr jid batch =
     [parsingWrite, foundWrite (length emps)] @ map (loopWrite fl emps) [0..<length emps] @
     [generatingWrite] @
     (let writeResult = fst (generateResultsExcel writeFile tmpDir batch
                               (map (recordOutcome llm) emps) jid)
      in if \<not> writeSuccess writeResult
         then [failedWrite (orElse (writeError writeResult) ''Failed to generate results file'')]
         else [StoreJobResults (map (recordOutcome llm) emps), doneWrite (fileName writeResult)])"
proof -
  have pe: "(if parseSuccess pr then employees pr else None) = Some emps"
    using assms by (simp add: parsedEmployees_def)
  show ?thesis
    unfolding processJob_def pe
    by (simp add: analysisLoop_eq Let_def parsingWrite_def foundWrite_def generatingWrite_def
        failedWrite_def doneWrite_def)
qed

lemma jobTrace_append:
  "jobTrace j (ws @ [w]) = jobTrace j ws @ [applyWrite (foldl applyWrite j ws) w]"
  by (induction ws arbitrary: j) simp_all

lemma last_jobTrace: "last (jobTrace j ws) = foldl applyWrite j ws"
  by (induction ws arbitrary: j) (simp_all, (case_tac ws; simp)+)

lemma finalJob_in_jobTrace: "finalJob j ws \<in> set (jobTrace j ws)"
proof -
  have "jobTrace j ws \<noteq> []" by (cases ws) simp_all
  then have "last (jobTrace j ws) \<in> set (jobTrace j ws)" by (rule last_in_set)
  then show ?thesis by (simp add: last_jobTrace finalJob_def)
qed

lemma status_applyWrite:
  "status (applyWrite j w) = (case statusWritten w of None \<Rightarrow> status j | Some s \<Rightarrow> s)"
  by (cases w) (simp_all add: updateJob_def)

lemma totalEmployees_applyWrite:
  "totalEmployees (applyWrite j w) =
     (case totalWritten w of None \<Rightarrow> totalEmployees j | Some n \<Rightarrow> Some n)"
  by (cases w) (simp_all add: updateJob_def)

lemma results_applyWrite:
  "results (applyWrite j w) = (case resultsWritten w of None \<Rightarrow> results j | Some rs \<Rightarrow> Some rs)"
  by (cases w) (simp_all add: updateJob_def)

lemma progress_applyWrite:
  "progress (applyWrite j w) = (case progressWritten w of None \<Rightarrow> progress j | Some p \<Rightarrow> p)"
  by (cases w) (simp_all add: updateJob_def)

lemma trace_status_excluded:
  "status j \<noteq> s \<Longrightarrow> \<forall>w \<in> set ws. statusWritten w \<noteq> Some s \<Longrightarrow>
   \<forall>j' \<in> set (jobTrace j ws). status j' \<noteq> s"
proof (induction ws arbitrary: j)
  case Nil
  then show ?case by simp
next
  case (Cons w ws)
  have "status (applyWrite j w) \<noteq> s"
    using Cons.prems by (auto simp: status_applyWrite split: option.splits)
  then have "\<forall>j' \<in> set (jobTrace (applyWrite j w) ws). status j' \<noteq> s"
    using Cons.prems(2) by (intro Cons.IH) simp_all
  then show ?case using Cons.prems(1) by simp
qed

lemma totalEmployees_foldl:
  "\<forall>w \<in> set ws. totalWritten w = None \<Longrightarrow>
   totalEmployees (foldl applyWrite j ws) = totalEmployees j"
  by (induction ws arbitrary: j) (simp_all add: totalEmployees_applyWrite)

lemma loopWrite_fields [simp]:
  "statusWritten (loopWrite fl emps i) = None"
  "totalWritten (loopWrite fl emps i) = None"
  "resultsWritten (loopWrite fl emps i) = None"
  "progressWritten (loopWrite fl emps i) = Some (recordProgress fl i (length emps))"
  by (simp_all add: loopWrite_def noUpdate_def)

lemma named_write_fields [simp]:
  "statusWritten parsingWrite = Some Running"
  "statusWritten (foundWrite n) = Some Running"
  "statusWritten generatingWrite = None"
  "statusWritten (failedWrite m) = Some Error"
  "statusWritten (doneWrite name) = Some Done"
  "totalWritten parsingWrite = None"
  "totalWritten (foundWrite n) = Some n"
  "totalWritten generatingWrite = None"
  "totalWritten (doneWrite name) = None"
  "progressWritten parsingWrite = Some 5"
  "progressWritten (foundWrite n) = Some 10"
  "progressWritten generatingWrite = Some 85"
  "progressWritten (failedWrite m) = Some 0"
  "progressWritten (doneWrite name) = Some 100"
  "resultsWritten (doneWrite name) = None"
  by (simp_all add: parsingWrite_def foundWrite_def generatingWrite_def failedWrite_def
      doneWrite_def noUpdate_def)

text \<open>The three ways \<open>processJob\<close> can end.\<close>

lemma processJob_cases:
  obtains (parse_failed) m where
      "parsedEmployees pr = None"
      "processJob llm fl writeFile tmpDir pr jid batch = [parsingWrite, failedWrite m]"
  | (write_failed) emps m where
      "parsedEmployees pr = Some emps"
      "\<not> writeSuccess (fst (generateResultsExcel writeFile tmpDir batch
                             (map (recordOutcome llm) emps) jid))"
      "processJob llm fl writeFile tmpDir pr jid batch =
         [parsingWrite, foundWrite (length emps)] @ map (loopWrite fl emps) [0..<length emps] @
         [generatingWrite, failedWrite m]"
  | (succeeded) emps name where
      "parsedEmployees pr = Some emps"
      "writeSuccess (fst (generateResultsExcel writeFile tmpDir batch
                           (map (recordOutcome llm) emps) jid))"
      "processJob llm fl writeFile tmpDir pr jid batch =
         [parsingWrite, foundWrite (length emps)] @ map (loopWrite fl emps) [0..<length emps] @
         [generatingWrite, StoreJobResults (map (recordOutcome llm) emps), doneWrite name]"
proof (cases "parsedEmployees pr")
  case None
  then show ?thesis using parse_failed processJob_parse_failed by blast
next
  case (Some emps)
  show ?thesis
  proof (cases "writeSuccess (fst (generateResultsExcel writeFile tmpDir batch
                                     (map (recordOutcome llm) emps) jid))")
    case True
    then show ?thesis
      using succeeded [OF Some] processJob_parsed [OF Some, of llm fl writeFile tmpDir jid batch]
      by (simp add: Let_def)
  next
    case False
    then show ?thesis
      using write_failed [OF Some] processJob_parsed [OF Some, of llm fl writeFile tmpDir jid batch]
      by (simp add: Let_def)
  qed
qed

lemma recordProgress_mono:
  assumes "mono fl" and "i \<le> k"
  shows "recordProgress fl i n \<le> recordProgress fl k n"
proof -
  have "(of_nat (i + 1) :: rat) / of_nat n \<le> of_nat (k + 1) / of_nat n"
    using assms(2) by (intro divide_right_mono) simp_all
  then have "fl (of_nat (i + 1) / of_nat n) \<le> fl (of_nat (k + 1) / of_nat n)"
    using assms(1) by (rule monoD [rotated])
  then have "fl (of_nat (i + 1) / of_nat n) * 70 \<le> fl (of_nat (k + 1) / of_nat n) * 70"
    by simp
  then have "fl (fl (of_nat (i + 1) / of_nat n) * 70) \<le> fl (fl (of_nat (k + 1) / of_nat n) * 70)"
    using assms(1) by (rule monoD [rotated])
  then have "10 + fl (fl (of_nat (i + 1) / of_nat n) * 70) \<le>
             10 + fl (fl (of_nat (k + 1) / of_nat n) * 70)"
    by simp
  then have "fl (10 + fl (fl (of_nat (i + 1) / of_nat n) * 70)) \<le>
             fl (10 + fl (fl (of_nat (k + 1) / of_nat n) * 70))"
    using assms(1) by (rule monoD [rotated])
  then show ?thesis
    unfolding recordProgress_def mathRound_def by (intro floor_mono) simp
qed

lemma recordProgress_last:
  assumes "fl 1 = 1" and "fl 70 = 70" and "fl 80 = 80" and "0 < n"
  shows "recordProgress fl (n - 1) n = 80"
proof -
  have q: "(of_nat (n - 1 + 1) :: rat) / of_nat n = 1" using assms(4) by simp
  have "recordProgress fl (n - 1) n = mathRound 80"
    unfolding recordProgress_def q by (simp add: assms(1-3))
  also have "mathRound 80 = 80"
    unfolding mathRound_def by (rule floor_unique) simp_all
  finally show ?thesis .
qed

lemma recordProgress_ge_10:
  assumes "mono fl" and "fl 0 = 0" and "fl 10 = 10"
  shows "10 \<le> recordProgress fl i n"
proof -
  have "(0 :: rat) \<le> of_nat (i + 1) / of_nat n" by simp
  then have "fl 0 \<le> fl (of_nat (i + 1) / of_nat n)" using assms(1) by (rule monoD [rotated])
  then have "0 \<le> fl (of_nat (i + 1) / of_nat n) * 70" by (simp add: assms(2))
  then have "fl 0 \<le> fl (fl (of_nat (i + 1) / of_nat n) * 70)"
    using assms(1) by (rule monoD [rotated])
  then have "10 \<le> 10 + fl (fl (of_nat (i + 1) / of_nat n) * 70)" by (simp add: assms(2))
  then have "fl 10 \<le> fl (10 + fl (fl (of_nat (i + 1) / of_nat n) * 70))"
    using assms(1) by (rule monoD [rotated])
  then have "(10 :: rat) \<le> fl (10 + fl (fl (of_nat (i + 1) / of_nat n) * 70))"
    by (simp add: assms(3))
  then have "\<lfloor>(10 :: rat)\<rfloor> \<le> \<lfloor>fl (10 + fl (fl (of_nat (i + 1) / of_nat n) * 70)) + 1 / 2\<rfloor>"
    by (intro floor_mono) simp
  then show ?thesis unfolding recordProgress_def mathRound_def by simp
qed

lemma recordProgress_le_80:
  assumes "mono fl" and "fl 1 = 1" and "fl 70 = 70" and "fl 80 = 80" and "i < n"
  shows "recordProgress fl i n \<le> 80"
proof -
  have "recordProgress fl i n \<le> recordProgress fl (n - 1) n"
    using assms(1,5) by (intro recordProgress_mono) simp_all
  also have "\<dots> = 80" using assms by (intro recordProgress_last) simp_all
  finally show ?thesis .
qed

lemma map_filter_append: "List.map_filter f (xs @ ys) = List.map_filter f xs @ List.map_filter f ys"
  by (simp add: List.map_filter_def)

lemma progress_of_loopWrites:
  "List.map_filter progressWritten (map (loopWrite fl emps) xs) =
   map (\<lambda>i. recordProgress fl i (length emps)) xs"
  by (induction xs) (simp_all add: List.map_filter_def)

lemma sorted_progress:
  assumes "mono fl" and "fl 0 = 0" and "fl 1 = 1" and "fl 10 = 10" and "fl 70 = 70"
    and "fl 80 = 80"
  shows "sorted ([5, 10] @ map (\<lambda>i. recordProgress fl i n) [0..<n] @ [85, 100])"
proof -
  have mid: "sorted (map (\<lambda>i. recordProgress fl i n) [0..<n])"
    unfolding sorted_map
    by (rule sorted_wrt_mono_rel [of _ "(\<le>)"]) (simp_all add: recordProgress_mono assms(1))
  have lo: "\<forall>x \<in> set (map (\<lambda>i. recordProgress fl i n) [0..<n]). 10 \<le> x"
    using recordProgress_ge_10 [OF assms(1,2,4)] by auto
  have hi: "\<forall>x \<in> set (map (\<lambda>i. recordProgress fl i n) [0..<n]). x \<le> 80"
    using recordProgress_le_80 [OF assms(1,3,5,6)] by auto
  have hi85: "\<forall>x \<in> set (map (\<lambda>i. recordProgress fl i n) [0..<n]). x \<le> 85"
    using hi by fastforce
  have hi100: "\<forall>x \<in> set (map (\<lambda>i. recordProgress fl i n) [0..<n]). x \<le> 100"
    using hi by fastforce
  have lo5: "\<forall>x \<in> set (map (\<lambda>i. recordProgress fl i n) [0..<n]). 5 \<le> x"
    using lo by fastforce
  have tail: "sorted (map (\<lambda>i. recordProgress fl i n) [0..<n] @ [85, 100])"
    using mid hi85 hi100 by (simp add: sorted_append del: map_upt_Suc upt_Suc)
  show ?thesis
    using tail lo lo5 by (simp del: map_upt_Suc upt_Suc)
qed

lemma status_finalJob_failed:
  "status (finalJob j (ws @ [failedWrite m])) = Error"
  by (simp add: finalJob_def status_applyWrite)

lemma analysisLoop_results:
  "fst (analysisLoop llm fl emps 0 ([], ws0)) = map (recordOutcome llm) emps"
  by (simp add: analysisLoop_eq)

lemma analysisLoop_writes:
  "snd (analysisLoop llm fl emps 0 ([], ws0)) = ws0 @ map (loopWrite fl emps) [0..<length emps]"
  by (simp add: analysisLoop_eq)

lemma recordOutcome_thrown:
  "llm e = Inl err \<Longrightarrow> recordOutcome llm e = analysisFailed e"
  by (simp add: recordOutcome_def)

lemma recordOutcome_returned:
  "llm e = Inr r \<Longrightarrow> recordOutcome llm e = r"
  by (simp add: recordOutcome_def)

lemma results_foldl:
  "\<forall>w \<in> set ws. resultsWritten w = None \<Longrightarrow>
   results (foldl applyWrite j ws) = results j"
  by (induction ws arbitrary: j) (simp_all add: results_applyWrite)

lemma status_foldl_last:
  "statusWritten w = Some s \<Longrightarrow> status (foldl applyWrite j (ws @ [w])) = s"
  by (simp add: status_applyWrite)

text \<open>Facts about the example run.\<close>

lemma exampleRun_done: "status (finalJob (createJob ''job-1'' ''Q1'') exampleRun) = Done"
  unfolding exampleRun_def by code_simp

lemma exact_props: "mono exact" "exact 0 = 0" "exact 1 = 1" "exact 10 = 10" "exact 70 = 70"
  "exact 80 = 80"
  by (simp_all add: exact_def mono_def)

lemma example_progress: "map (\<lambda>i. recordProgress exact i 3) [0..<3] = [33, 57, 80]"
  by code_simp

lemma failsOnE2_at_1: "failsOnE2 (exampleBatch ! 1) = Inl (ErrorObject ''provider unavailable'')"
  by (simp add: failsOnE2_def exampleBatch_def exampleEmployee_def)

lemma diskOk_writeSuccess:
  "writeSuccess (fst (generateResultsExcel diskOk tmpDir batch rs jid))"
  by (simp add: generateResultsExcel_def diskOk_def Let_def)

section \<open>The result writer: what the worksheet holds\<close>

lemma cells_resultRow:
  "map cellValue (resultRow batch r) =
     [batch, resultEmployeeId r,
      ''Bias Assessment: '' @ biasAssessment r @
      '' | Values Alignment: '' @ valuesAlignmentText (valuesAlignment r) @
      '' | Rating Consistency: '' @ ratingConsistencyText (ratingConsistency r) @
      '' ('' @ ratingConsistencyRationale r @ '')'',
      recommendationText (aiRecommendation r), ''Pending'', [],
      join (flagsTriggered r) '', '']"
  by (simp add: resultRow_def addRow_def setFill_def worksheetColumns_def Let_def)

lemma cells_headerRow:
  "map cellValue (headerRow worksheetColumns) =
     [''ReviewBatch'', ''EmployeeId'', ''AI_Output'', ''AI_Recommendation'', ''ReviewStatus'',
      ''ReviewerNotes'', ''FlagsTriggered'']"
  by (simp add: headerRow_def worksheetColumns_def)

lemma generateResultsExcel_sheet:
  "snd (generateResultsExcel writeFile tmpDir batch rs jid) = Some sheet \<Longrightarrow>
   sheet = buildWorksheet batch rs"
  by (auto simp: generateResultsExcel_def Let_def split: option.splits)

section \<open>Claims about the orchestrator\<close>

text \<open>
  C6: when the analysis call throws at record \<open>i\<close>, the loop still yields one result per
  record; the result at \<open>i\<close> carries that record's \<^verbatim>\<open>employeeId\<close>, RED and the flags
  \<^verbatim>\<open>["AnalysisError"]\<close>; every record whose call returns keeps the provider's result;
  and no write of the loop touches the status. So in a job whose parse and whose writer
  succeed, the job ends done with that full result list stored and is never seen in error.
\<close>

theorem failed_record_is_isolated:
  assumes "i < length emps" and "llm (emps ! i) = Inl err"
  shows "length (fst (analysisLoop llm fl emps 0 ([], ws0))) = length emps \<and>
         resultEmployeeId (fst (analysisLoop llm fl emps 0 ([], ws0)) ! i) = employeeId (emps ! i) \<and>
         aiRecommendation (fst (analysisLoop llm fl emps 0 ([], ws0)) ! i) = RED \<and>
         flagsTriggered (fst (analysisLoop llm fl emps 0 ([], ws0)) ! i) = [''AnalysisError''] \<and>
         (\<forall>k r. k < length emps \<and> llm (emps ! k) = Inr r \<longrightarrow>
                fst (analysisLoop llm fl emps 0 ([], ws0)) ! k = r) \<and>
         (\<forall>w \<in> set (drop (length ws0) (snd (analysisLoop llm fl emps 0 ([], ws0)))).
            statusWritten w = None) \<and>
         (status job0 = Queued \<and> parsedEmployees pr = Some emps \<and>
          writeSuccess (fst (generateResultsExcel writeFile tmpDir batch
                               (fst (analysisLoop llm fl emps 0 ([], []))) jid)) \<longrightarrow>
            status (finalJob job0 (processJob llm fl writeFile tmpDir pr jid batch)) = Done \<and>
            results (finalJob job0 (processJob llm fl writeFile tmpDir pr jid batch)) =
              Some (fst (analysisLoop llm fl emps 0 ([], []))) \<and>
            (\<forall>j \<in> set (jobTrace job0 (processJob llm fl writeFile tmpDir pr jid batch)).
               status j \<noteq> Error))"
proof (intro conjI allI impI ballI)
  show "length (fst (analysisLoop llm fl emps 0 ([], ws0))) = length emps"
    by (simp add: analysisLoop_results)
  have at_i: "fst (analysisLoop llm fl emps 0 ([], ws0)) ! i = analysisFailed (emps ! i)"
    using assms by (simp add: analysisLoop_results recordOutcome_thrown)
  show "resultEmployeeId (fst (analysisLoop llm fl emps 0 ([], ws0)) ! i) = employeeId (emps ! i)"
    by (simp add: at_i analysisFailed_def)
  show "aiRecommendation (fst (analysisLoop llm fl emps 0 ([], ws0)) ! i) = RED"
    by (simp add: at_i analysisFailed_def)
  show "flagsTriggered (fst (analysisLoop llm fl emps 0 ([], ws0)) ! i) = [''AnalysisError'']"
    by (simp add: at_i analysisFailed_def)
next
  fix k r
  assume "k < length emps \<and> llm (emps ! k) = Inr r"
  then show "fst (analysisLoop llm fl emps 0 ([], ws0)) ! k = r"
    by (simp add: analysisLoop_results recordOutcome_returned)
next
  fix w
  assume "w \<in> set (drop (length ws0) (snd (analysisLoop llm fl emps 0 ([], ws0))))"
  then have "w \<in> set (map (loopWrite fl emps) [0..<length emps])"
    by (simp add: analysisLoop_writes)
  then show "statusWritten w = None" by auto
next
  assume job: "status job0 = Queued \<and> parsedEmployees pr = Some emps \<and>
      writeSuccess (fst (generateResultsExcel writeFile tmpDir batch
                           (fst (analysisLoop llm fl emps 0 ([], []))) jid))"
  let ?rs = "map (recordOutcome llm) emps"
  let ?ws = "processJob llm fl writeFile tmpDir pr jid batch"
  from job have ok: "writeSuccess (fst (generateResultsExcel writeFile tmpDir batch ?rs jid))"
    by (simp add: analysisLoop_results)
  from job have pe: "parsedEmployees pr = Some emps" by simp
  let ?name = "fileName (fst (generateResultsExcel writeFile tmpDir batch ?rs jid))"
  have ws_eq: "?ws =
      ([parsingWrite, foundWrite (length emps)] @ map (loopWrite fl emps) [0..<length emps] @
       [generatingWrite, StoreJobResults ?rs]) @ [doneWrite ?name]"
    using ok processJob_parsed [OF pe, of llm fl writeFile tmpDir jid batch]
    by (simp add: Let_def)
  show "status (finalJob job0 ?ws) = Done"
    unfolding ws_eq finalJob_def by (rule status_foldl_last) simp
  show "results (finalJob job0 ?ws) = Some (fst (analysisLoop llm fl emps 0 ([], [])))"
    unfolding ws_eq finalJob_def
    by (simp add: analysisLoop_results results_applyWrite)
  fix j
  assume "j \<in> set (jobTrace job0 ?ws)"
  moreover have "\<forall>j' \<in> set (jobTrace job0 ?ws). status j' \<noteq> Error"
    unfolding ws_eq using job by (intro trace_status_excluded) auto
  ultimately show "status j \<noteq> Error" by blast
qed

theorem failed_record_is_isolated_witness:
  "length (fst (analysisLoop failsOnE2 exact exampleBatch 0 ([], []))) = 3 \<and>
   resultEmployeeId (fst (analysisLoop failsOnE2 exact exampleBatch 0 ([], [])) ! 1) = ''E2'' \<and>
   aiRecommendation (fst (analysisLoop failsOnE2 exact exampleBatch 0 ([], [])) ! 1) = RED \<and>
   flagsTriggered (fst (analysisLoop failsOnE2 exact exampleBatch 0 ([], [])) ! 1) =
     [''AnalysisError''] \<and>
   fst (analysisLoop failsOnE2 exact exampleBatch 0 ([], [])) ! 2 = analyze (exampleBatch ! 2) \<and>
   status (finalJob (createJob ''job-1'' ''Q1'') exampleRun) = Done \<and>
   results (finalJob (createJob ''job-1'' ''Q1'') exampleRun) =
     Some (fst (analysisLoop failsOnE2 exact exampleBatch 0 ([], []))) \<and>
   \<not> (\<exists>j \<in> set (jobTrace (createJob ''job-1'' ''Q1'') exampleRun). status j = Error)"
proof -
  have i: "1 < length exampleBatch" by (simp add: exampleBatch_def)
  have q: "status (createJob ''job-1'' ''Q1'') = Queued" by (simp add: createJob_def)
  have p: "parsedEmployees exampleParse = Some exampleBatch"
    by (simp add: parsedEmployees_def exampleParse_def)
  have third: "2 < length exampleBatch \<and>
      failsOnE2 (exampleBatch ! 2) = Inr (analyze (exampleBatch ! 2))"
    by (simp add: exampleBatch_def failsOnE2_def exampleEmployee_def mockLLMProvider_def)
  have n: "length exampleBatch = 3" by (simp add: exampleBatch_def)
  have e2: "employeeId (exampleBatch ! 1) = ''E2''"
    by (simp add: exampleBatch_def exampleEmployee_def)
  show ?thesis
    using failed_record_is_isolated [where i = 1 and emps = exampleBatch and llm = failsOnE2
        and fl = exact and ?ws0.0 = "[]" and ?job0.0 = "createJob ''job-1'' ''Q1''"
        and pr = exampleParse and writeFile = diskOk and tmpDir = "''/app/tmp''"
        and batch = "''Q1''" and jid = "''job-1''", OF i failsOnE2_at_1]
      q p third n e2 diskOk_writeSuccess
    unfolding exampleRun_def by auto
qed

text \<open>
  C7: a job created as queued that is seen with status done, at any moment of
  \<open>processJob\<close>, holds a stored result list with one entry per extracted employee
  record, \<^verbatim>\<open>totalEmployees\<close> equal to that number, and progress 100.
\<close>

theorem done_job_results_complete:
  assumes "status job0 = Queued"
    and "j \<in> set (jobTrace job0 (processJob llm fl writeFile tmpDir pr jid batch))"
    and "status j = Done"
  shows "\<exists>emps rs. parsedEmployees pr = Some emps \<and> results j = Some rs \<and>
           length rs = length emps \<and> totalEmployees j = Some (length rs) \<and> progress j = 100"
proof (cases rule: processJob_cases [of pr llm fl writeFile tmpDir jid batch])
  case (parse_failed m)
  have "\<forall>j' \<in> set (jobTrace job0 [parsingWrite, failedWrite m]). status j' \<noteq> Done"
    using assms(1) by (intro trace_status_excluded) simp_all
  then show ?thesis using assms(2,3) parse_failed(2) by auto
next
  case (write_failed emps m)
  have "\<forall>j' \<in> set (jobTrace job0 (processJob llm fl writeFile tmpDir pr jid batch)).
          status j' \<noteq> Done"
    unfolding write_failed(3) using assms(1) by (intro trace_status_excluded) auto
  then show ?thesis using assms(2,3) by auto
next
  case (succeeded emps name)
  let ?rs = "map (recordOutcome llm) emps"
  let ?pre = "[parsingWrite, foundWrite (length emps)] @
              map (loopWrite fl emps) [0..<length emps] @ [generatingWrite, StoreJobResults ?rs]"
  have ws: "processJob llm fl writeFile tmpDir pr jid batch = ?pre @ [doneWrite name]"
    by (simp add: succeeded(3))
  have early: "\<forall>j' \<in> set (jobTrace job0 ?pre). status j' \<noteq> Done"
    using assms(1) by (intro trace_status_excluded) auto
  have tr: "jobTrace job0 (processJob llm fl writeFile tmpDir pr jid batch) =
      jobTrace job0 ?pre @ [applyWrite (foldl applyWrite job0 ?pre) (doneWrite name)]"
    unfolding ws by (rule jobTrace_append)
  from assms(2) [unfolded tr] have "j \<in> set (jobTrace job0 ?pre) \<or>
      j = applyWrite (foldl applyWrite job0 ?pre) (doneWrite name)"
    by (simp only: set_append Un_iff list.set insert_iff empty_iff simp_thms)
  with early assms(3) have j: "j = applyWrite (foldl applyWrite job0 ?pre) (doneWrite name)"
    by blast
  have res: "results j = Some ?rs"
    by (simp add: j results_applyWrite)
  have tot: "totalEmployees j = Some (length emps)"
    by (simp add: j totalEmployees_applyWrite totalEmployees_foldl)
  have prog: "progress j = 100"
    by (simp add: j progress_applyWrite)
  show ?thesis using succeeded(1) res tot prog by simp
qed

theorem done_job_results_complete_witness:
  "status (finalJob (createJob ''job-1'' ''Q1'') exampleRun) = Done \<and>
   (\<exists>rs. results (finalJob (createJob ''job-1'' ''Q1'') exampleRun) = Some rs \<and>
         length rs = length exampleBatch \<and>
         totalEmployees (finalJob (createJob ''job-1'' ''Q1'') exampleRun) = Some (length rs)) \<and>
   progress (finalJob (createJob ''job-1'' ''Q1'') exampleRun) = 100"
proof -
  have q: "status (createJob ''job-1'' ''Q1'') = Queued" by (simp add: createJob_def)
  have p: "parsedEmployees exampleParse = Some exampleBatch"
    by (simp add: parsedEmployees_def exampleParse_def)
  show ?thesis
    using done_job_results_complete [OF q finalJob_in_jobTrace,
        of failsOnE2 exact diskOk "''/app/tmp''" exampleParse "''job-1''" "''Q1''"]
      exampleRun_done p
    unfolding exampleRun_def by auto
qed

text \<open>
  C8: for a job that ends done, the progress values written are 5, 10, the per-record
  values \<^verbatim>\<open>Math.round(10 + ((i + 1) / totalEmployees) * 70)\<close> for i = 0..n-1, 85 and
  100, in that order; the sequence is non-decreasing, and the per-record value after the
  last record is 80. The rounding \<open>fl\<close> of the double operations is any monotone function
  that is exact at 0, 1, 10, 70 and 80, as rounding to the nearest double is.
\<close>

theorem progress_non_decreasing:
  assumes "mono fl" and "fl 0 = 0" and "fl 1 = 1" and "fl 10 = 10" and "fl 70 = 70"
    and "fl 80 = 80"
    and "parsedEmployees pr = Some emps"
    and "status (finalJob job0 (processJob llm fl writeFile tmpDir pr jid batch)) = Done"
  shows "List.map_filter progressWritten (processJob llm fl writeFile tmpDir pr jid batch) =
           [5, 10] @ map (\<lambda>i. recordProgress fl i (length emps)) [0..<length emps] @ [85, 100] \<and>
         sorted (List.map_filter progressWritten
                   (processJob llm fl writeFile tmpDir pr jid batch)) \<and>
         (emps \<noteq> [] \<longrightarrow> recordProgress fl (length emps - 1) (length emps) = 80)"
proof (cases rule: processJob_cases [of pr llm fl writeFile tmpDir jid batch])
  case (parse_failed m)
  then show ?thesis using assms(7) by simp
next
  case (write_failed emps' m)
  have "processJob llm fl writeFile tmpDir pr jid batch =
      ([parsingWrite, foundWrite (length emps')] @ map (loopWrite fl emps') [0..<length emps'] @
       [generatingWrite]) @ [failedWrite m]"
    by (simp add: write_failed(3))
  then have "status (finalJob job0 (processJob llm fl writeFile tmpDir pr jid batch)) = Error"
    by (simp only: status_finalJob_failed)
  then show ?thesis using assms(8) by simp
next
  case (succeeded emps' name)
  then have e: "emps' = emps" using assms(7) by simp
  have list: "List.map_filter progressWritten (processJob llm fl writeFile tmpDir pr jid batch) =
      [5, 10] @ map (\<lambda>i. recordProgress fl i (length emps)) [0..<length emps] @ [85, 100]"
    unfolding succeeded(3) e
    by (simp add: map_filter_append progress_of_loopWrites)
  have last: "emps \<noteq> [] \<longrightarrow> recordProgress fl (length emps - 1) (length emps) = 80"
    using recordProgress_last [OF assms(3,5,6)] by simp
  from sorted_progress [OF assms(1-6)]
  have "sorted (List.map_filter progressWritten
                  (processJob llm fl writeFile tmpDir pr jid batch))"
    unfolding list .
  with list last show ?thesis by (intro conjI)
qed

theorem progress_non_decreasing_witness:
  "status (finalJob (createJob ''job-1'' ''Q1'') exampleRun) = Done \<and>
   List.map_filter progressWritten exampleRun = [5, 10, 33, 57, 80, 85, 100] \<and>
   sorted (List.map_filter progressWritten exampleRun) \<and>
   recordProgress exact (length exampleBatch - 1) (length exampleBatch) = 80"
proof -
  have p: "parsedEmployees exampleParse = Some exampleBatch"
    by (simp add: parsedEmployees_def exampleParse_def)
  have n: "length exampleBatch = 3" "exampleBatch \<noteq> []" by (simp_all add: exampleBatch_def)
  show ?thesis
    using progress_non_decreasing [OF exact_props p exampleRun_done [unfolded exampleRun_def]]
      exampleRun_done example_progress n
    unfolding exampleRun_def by simp
qed

section \<open>Claims about the result writer\<close>

text \<open>
  C9, as stated: each data row holds the batch label, the identifier, the AI-output summary,
  the recommendation, a blank reviewer-status cell, a blank reviewer-notes cell and the
  joined flags. The reviewer-status cell is not blank: the writer fills it with
  \<^verbatim>\<open>Pending\<close>.
\<close>

theorem blank_reviewer_status_counterexample:
  "snd (generateResultsExcel diskOk ''/app/tmp'' ''Q1'' [exampleResult] ''job-1'') =
     Some (buildWorksheet ''Q1'' [exampleResult]) \<and>
   map cellValue (rows (buildWorksheet ''Q1'' [exampleResult]) ! 1) =
     [''Q1'', ''E2'',
      ''Bias Assessment: Analysis failed | Values Alignment: Misaligned | Rating Consistency: Inconsistent (Unable to complete analysis)'',
      ''RED'', ''Pending'', [], ''AnalysisError''] \<and>
   cellValue (rows (buildWorksheet ''Q1'' [exampleResult]) ! 1 ! 4) \<noteq> []"
proof -
  have pending: "cellValue (rows (buildWorksheet ''Q1'' [exampleResult]) ! 1 ! 4) = ''Pending''"
    by code_simp
  have sheet: "snd (generateResultsExcel diskOk ''/app/tmp'' ''Q1'' [exampleResult] ''job-1'') =
      Some (buildWorksheet ''Q1'' [exampleResult])"
    by (simp add: generateResultsExcel_def diskOk_def Let_def)
  have row: "map cellValue (rows (buildWorksheet ''Q1'' [exampleResult]) ! 1) =
     [''Q1'', ''E2'',
      ''Bias Assessment: Analysis failed | Values Alignment: Misaligned | Rating Consistency: Inconsistent (Unable to complete analysis)'',
      ''RED'', ''Pending'', [], ''AnalysisError'']"
    by (simp add: buildWorksheet_def cells_resultRow exampleResult_def)
  from pending have "cellValue (rows (buildWorksheet ''Q1'' [exampleResult]) ! 1 ! 4) \<noteq> []"
    by simp
  with sheet row show ?thesis by (intro conjI)
qed

text \<open>
  C9, amended: the sheet written has the header row and then one row per result, in order,
  whose cells are the batch label, the identifier, the AI-output summary string, the
  recommendation, the fixed reviewer-status text \<^verbatim>\<open>Pending\<close>, an empty reviewer-notes
  cell, and the flags joined with a comma and a space.
\<close>

theorem result_sheet_rows:
  assumes "snd (generateResultsExcel writeFile tmpDir batch rs jid) = Some sheet"
  shows "map (map cellValue) (rows sheet) =
     [''ReviewBatch'', ''EmployeeId'', ''AI_Output'', ''AI_Recommendation'', ''ReviewStatus'',
      ''ReviewerNotes'', ''FlagsTriggered''] #
     map (\<lambda>r. [batch, resultEmployeeId r,
                ''Bias Assessment: '' @ biasAssessment r @
                '' | Values Alignment: '' @ valuesAlignmentText (valuesAlignment r) @
                '' | Rating Consistency: '' @ ratingConsistencyText (ratingConsistency r) @
                '' ('' @ ratingConsistencyRationale r @ '')'',
                recommendationText (aiRecommendation r), ''Pending'', [],
                join (flagsTriggered r) '', '']) rs"
proof -
  have "sheet = buildWorksheet batch rs" using assms by (rule generateResultsExcel_sheet)
  then show ?thesis
    by (simp add: buildWorksheet_def cells_headerRow cells_resultRow comp_def)
qed

theorem result_sheet_rows_witness:
  "snd (generateResultsExcel diskOk ''/app/tmp'' ''Q1'' [exampleResult] ''job-1'') =
     Some (buildWorksheet ''Q1'' [exampleResult]) \<and>
   map (map cellValue) (rows (buildWorksheet ''Q1'' [exampleResult])) =
     [[''ReviewBatch'', ''EmployeeId'', ''AI_Output'', ''AI_Recommendation'', ''ReviewStatus'',
       ''ReviewerNotes'', ''FlagsTriggered''],
      [''Q1'', ''E2'',
       ''Bias Assessment: Analysis failed | Values Alignment: Misaligned | Rating Consistency: Inconsistent (Unable to complete analysis)'',
       ''RED'', ''Pending'', [], ''AnalysisError'']]"
proof -
  have w: "snd (generateResultsExcel diskOk ''/app/tmp'' ''Q1'' [exampleResult] ''job-1'') =
      Some (buildWorksheet ''Q1'' [exampleResult])"
    by (simp add: generateResultsExcel_def diskOk_def Let_def)
  show ?thesis
    using w result_sheet_rows [OF w] by (simp add: exampleResult_def)
qed

end
